theory Spec2Isabelle
  imports Main "HOL-Library.Sublist"
begin

text \<open>
  A model of \<^verbatim>\<open>luma_ai_mcp_server/server.py\<close>: the gateway \<^verbatim>\<open>_make_luma_request\<close> and
  the ten tool handlers, as functions from the argument mapping, the credential and the
  outcomes of the network calls to the text returned and the events of the call.
  The \<^verbatim>\<open>httpx\<close> client and the clock are the environment: a request is an event, its
  outcome is given by the world, a pause is an event. Closing the client and the
  registration of the tools with the protocol server are not modelled.
\<close>

section \<open>Python values as the handlers see them\<close>

text \<open>
  The handlers of \<^verbatim>\<open>server.py\<close> work on decoded JSON: the argument mapping of a tool
  call and the reply of the upstream API. A dictionary keeps its insertion order (it is
  printed in that order), so it is an association list; \<open>dict_get\<close> reads it as Python
  does. A float is kept as the text Python prints for it (\<^verbatim>\<open>150000.0\<close>), which
  determines the float; strings are sequences of code points below 256.
\<close>

datatype json =
    JNull
  | JBool bool
  | JInt int
  | JFloat string
  | JStr string
  | JList "json list"
  | JObj "(string \<times> json) list"

type_synonym dict = "(string \<times> json) list"

definition has_key :: "dict \<Rightarrow> string \<Rightarrow> bool" where
  "has_key d k = (map_of d k \<noteq> None)"

definition dict_get :: "dict \<Rightarrow> string \<Rightarrow> json \<Rightarrow> json" where
  "dict_get d k dflt = (case map_of d k of None \<Rightarrow> dflt | Some v \<Rightarrow> v)"

fun truthy :: "json \<Rightarrow> bool" where
  "truthy JNull = False"
| "truthy (JBool b) = b"
| "truthy (JInt i) = (i \<noteq> 0)"
| "truthy (JFloat s) = (s \<noteq> ''0.0'' \<and> s \<noteq> ''-0.0'')"
| "truthy (JStr s) = (s \<noteq> [])"
| "truthy (JList xs) = (xs \<noteq> [])"
| "truthy (JObj kvs) = (kvs \<noteq> [])"

fun is_dict :: "json \<Rightarrow> bool" where
  "is_dict (JObj kvs) = True"
| "is_dict v = False"

fun is_list :: "json \<Rightarrow> bool" where
  "is_list (JList xs) = True"
| "is_list v = False"

fun type_name :: "json \<Rightarrow> string" where
  "type_name JNull = ''NoneType''"
| "type_name (JBool b) = ''bool''"
| "type_name (JInt i) = ''int''"
| "type_name (JFloat s) = ''float''"
| "type_name (JStr s) = ''str''"
| "type_name (JList xs) = ''list''"
| "type_name (JObj kvs) = ''dict''"

subsection \<open>Text of a value: \<^verbatim>\<open>str\<close> and \<^verbatim>\<open>repr\<close>\<close>

definition sq :: char where
  "sq = CHR 0x27"

definition dq :: char where
  "dq = CHR 0x22"

definition bslash :: char where
  "bslash = CHR 0x5C"

definition nl :: char where
  "nl = CHR 0x0A"

fun str_join :: "string \<Rightarrow> string list \<Rightarrow> string" where
  "str_join sep [] = []"
| "str_join sep [x] = x"
| "str_join sep (x # y # ys) = x @ sep @ str_join sep (y # ys)"

definition digit :: "nat \<Rightarrow> char" where
  "digit n = ''0123456789abcdef'' ! n"

fun str_nat :: "nat \<Rightarrow> string" where
  "str_nat n = (if n < 10 then [digit n] else str_nat (n div 10) @ [digit (n mod 10)])"

declare str_nat.simps [simp del]

definition str_int :: "int \<Rightarrow> string" where
  "str_int i = (if i < 0 then CHR ''-'' # str_nat (nat (- i)) else str_nat (nat i))"

definition printable :: "char \<Rightarrow> bool" where
  "printable c = (let n = (of_char c :: nat) in
     \<not> (n < 32 \<or> (127 \<le> n \<and> n \<le> 160) \<or> n = 173))"

definition escape_char :: "char \<Rightarrow> char \<Rightarrow> string" where
  "escape_char q c =
     (if c = q \<or> c = bslash then [bslash, c]
      else if c = CHR 0x09 then [bslash, CHR ''t'']
      else if c = CHR 0x0A then [bslash, CHR ''n'']
      else if c = CHR 0x0D then [bslash, CHR ''r'']
      else if printable c then [c]
      else [bslash, CHR ''x'', digit (of_char c div 16), digit (of_char c mod 16)])"

definition repr_str :: "string \<Rightarrow> string" where
  "repr_str s =
     (let q = (if sq \<in> set s \<and> dq \<notin> set s then dq else sq)
      in q # concat (map (escape_char q) s) @ [q])"

fun py_repr :: "json \<Rightarrow> string" where
  "py_repr JNull = ''None''"
| "py_repr (JBool b) = (if b then ''True'' else ''False'')"
| "py_repr (JInt i) = str_int i"
| "py_repr (JFloat s) = s"
| "py_repr (JStr s) = repr_str s"
| "py_repr (JList xs) = ''['' @ str_join '', '' (map py_repr xs) @ '']''"
| "py_repr (JObj kvs) =
     ''{'' @ str_join '', '' (map (\<lambda>(k, v). repr_str k @ '': '' @ py_repr v) kvs) @ ''}''"

fun py_str :: "json \<Rightarrow> string" where
  "py_str (JStr s) = s"
| "py_str v = py_repr v"

section \<open>The HTTP gateway\<close>

text \<open>
  An exception is its class, as far as the handlers tell classes apart, and its text
  (\<^verbatim>\<open>str(e)\<close>): \<open>ValueError\<close> is what the gateway and the handlers raise themselves and
  what the retry loop of \<open>upscale_generation\<close> catches; \<open>OtherError\<close> is any other
  \<^verbatim>\<open>Exception\<close>.
\<close>

datatype exn = ValueError string | OtherError string

fun exn_str :: "exn \<Rightarrow> string" where
  "exn_str (ValueError m) = m"
| "exn_str (OtherError m) = m"

record request =
  http_method :: string
  url :: string
  headers :: "(string \<times> string) list"
  timeout_s :: nat
  json_body :: "dict option"
  params :: "dict option"

text \<open>
  What the gateway reads of an \<^verbatim>\<open>httpx\<close> response: the status code, the raw content,
  the content-type header (empty when absent), the decoded text, and what
  \<^verbatim>\<open>response.json()\<close> gives: a value, or the text of the exception it raises.
\<close>

record response =
  status_code :: int
  content :: string
  content_type :: string
  body_text :: string
  body_json :: "string + json"

text \<open>
  \<^verbatim>\<open>client.request\<close> raises \<^verbatim>\<open>httpx.RequestError\<close> (a transport fault), raises
  something else, or returns a response. The world of one tool call is the value of
  \<^verbatim>\<open>LUMA_API_KEY\<close> and the outcome of the first, second, ... network call.
\<close>

datatype outcome = RequestError string | Raised exn | Responded response

record world =
  env_key :: "string option"
  replies :: "nat \<Rightarrow> outcome"

datatype level = Info | Warning | Error

datatype event = Call request | Sleep nat | Log level string

definition base_url :: string where
  "base_url = ''https://api.lumalabs.ai/dream-machine/v1''"

text \<open>
  \<^verbatim>\<open>api_key = api_key or os.getenv("LUMA_API_KEY")\<close>, then \<^verbatim>\<open>if not api_key: raise\<close>:
  the credential in use, if there is one.
\<close>

definition credential :: "world \<Rightarrow> string option \<Rightarrow> string option" where
  "credential w api_key =
     (case (case api_key of None \<Rightarrow> env_key w
                         | Some k \<Rightarrow> if k \<noteq> [] then Some k else env_key w) of
        None \<Rightarrow> None
      | Some k \<Rightarrow> if k = [] then None else Some k)"

definition raw_response :: "response \<Rightarrow> json" where
  "raw_response r = JObj [(''raw_response'', JStr (body_text r))]"

definition response_json :: "response \<Rightarrow> json \<times> event list" where
  "response_json r =
     (case body_json r of
        Inr v \<Rightarrow> (v, [])
      | Inl m \<Rightarrow> (raw_response r, [Log Warning (''Failed to parse JSON response: '' @ m)]))"

definition decode_body :: "response \<Rightarrow> json \<times> event list" where
  "decode_body r =
     (if sublist ''application/json'' (content_type r) then response_json r
      else if body_text r \<noteq> [] \<and> (prefix ''{'' (body_text r) \<or> prefix ''['' (body_text r))
      then response_json r
      else (raw_response r, []))"

definition http_error :: "int \<Rightarrow> json \<Rightarrow> string" where
  "http_error status json_data =
     ''HTTP error '' @ str_int status @
     (if truthy json_data then '': '' @ py_str json_data else [])"

definition unexpected :: "exn \<Rightarrow> event" where
  "unexpected e = Log Error (''Unexpected error in _make_luma_request: '' @ exn_str e)"

definition read_response :: "response \<Rightarrow> (exn + json) \<times> event list" where
  "read_response r =
     (if content r = [] then (Inr (JObj []), [])
      else case decode_body r of (json_data, logs) \<Rightarrow>
        if status_code r \<ge> 400
        then (Inl (ValueError (http_error (status_code r) json_data)),
              logs @ [unexpected (ValueError (http_error (status_code r) json_data))])
        else (Inr json_data, logs))"

definition build_request ::
  "string \<Rightarrow> string \<Rightarrow> string \<Rightarrow> dict option \<Rightarrow> dict option \<Rightarrow> request" where
  "build_request meth endpoint k body query =
     \<lparr> http_method = meth, url = base_url @ ''/'' @ endpoint,
       headers = [(''Authorization'', ''Bearer '' @ k),
                  (''Content-Type'', ''application/json''),
                  (''Accept'', ''application/json'')],
       timeout_s = 30, json_body = body, params = query \<rparr>"

text \<open>
  What the gateway makes of the outcome of \<^verbatim>\<open>client.request\<close>: the value it returns
  or the exception it raises, and what it logs.
\<close>

fun receive :: "outcome \<Rightarrow> (exn + json) \<times> event list" where
  "receive (RequestError m) =
     (Inl (ValueError (''Network error: '' @ m)), [Log Error (''Request error: '' @ m)])"
| "receive (Raised e) = (Inl e, [unexpected e])"
| "receive (Responded r) = read_response r"

definition send_request :: "world \<Rightarrow> nat \<Rightarrow> request \<Rightarrow> (exn + json) \<times> event list" where
  "send_request w n req = (fst (receive (replies w n)), Call req # snd (receive (replies w n)))"

definition missing_key :: exn where
  "missing_key = ValueError ''LUMA_API_KEY environment variable or --api-key option is required''"

definition make_luma_request ::
  "world \<Rightarrow> nat \<Rightarrow> string \<Rightarrow> string \<Rightarrow> string option \<Rightarrow> dict option \<Rightarrow> dict option
     \<Rightarrow> (exn + json) \<times> event list" where
  "make_luma_request w n meth endpoint api_key body query =
     (case credential w api_key of
        None \<Rightarrow> (Inl missing_key, [])
      | Some k \<Rightarrow> send_request w n (build_request meth endpoint k body query))"

text \<open>
  The wrapper every handler has: \<^verbatim>\<open>try: ... except Exception as e:\<close>, where the
  handler logs \<^verbatim>\<open>Error in <name>: <e>\<close> and returns a text made from \<open>e\<close>.
\<close>

definition try_except ::
  "(exn + string) \<times> event list \<Rightarrow> string \<Rightarrow> (string \<Rightarrow> string) \<Rightarrow> string \<times> event list" where
  "try_except body name on_error =
     (case body of
        (Inr s, evs) \<Rightarrow> (s, evs)
      | (Inl e, evs) \<Rightarrow>
          (on_error (exn_str e), evs @ [Log Error (''Error in '' @ name @ '': '' @ exn_str e)]))"

fun calls :: "event list \<Rightarrow> request list" where
  "calls [] = []"
| "calls (Call r # evs) = r # calls evs"
| "calls (e # evs) = calls evs"

section \<open>The tool handlers\<close>

text \<open>
  A handler takes the world, the argument mapping and the optional credential override,
  and returns its text with the events of the call in order: the requests sent, the
  pauses, the log records. The part inside \<^verbatim>\<open>try\<close> is the \<open>_body\<close> function, which
  may end in an exception.
\<close>

subsection \<open>ping\<close>

definition ping_body :: "world \<Rightarrow> dict \<Rightarrow> string option \<Rightarrow> (exn + string) \<times> event list" where
  "ping_body w parameters api_key =
     (case make_luma_request w 0 ''GET'' ''ping'' api_key None None of
        (Inl e, evs) \<Rightarrow> (Inl e, evs)
      | (Inr result, evs) \<Rightarrow>
          (Inr (''Luma API is available and responding'' @
                (if truthy result then '': '' @ py_str result else [])), evs))"

definition ping :: "world \<Rightarrow> dict \<Rightarrow> string option \<Rightarrow> string \<times> event list" where
  "ping w parameters api_key =
     try_except (ping_body w parameters api_key) ''ping''
       (\<lambda>m. ''Error pinging Luma API: '' @ m)"

subsection \<open>create_generation\<close>

definition optional_params :: "string list" where
  "optional_params = [''resolution'', ''duration'', ''aspect_ratio'', ''loop'', ''callback_url'']"

definition present :: "dict \<Rightarrow> string \<Rightarrow> bool" where
  "present parameters k = (has_key parameters k \<and> dict_get parameters k JNull \<noteq> JNull)"

definition has_keyframes :: "dict \<Rightarrow> bool" where
  "has_keyframes d = (has_key d ''keyframes'' \<and> truthy (dict_get d ''keyframes'' JNull))"

definition create_data :: "dict \<Rightarrow> dict" where
  "create_data parameters =
     [(''prompt'', dict_get parameters ''prompt'' JNull),
      (''model'', dict_get parameters ''model'' (JStr ''ray-2''))]
     @ map (\<lambda>k. (k, dict_get parameters k JNull)) (filter (present parameters) optional_params)
     @ (if has_keyframes parameters
        then [(''keyframes'', dict_get parameters ''keyframes'' JNull)] else [])"

definition duration_warning :: "dict \<Rightarrow> event list" where
  "duration_warning parameters =
     (if present parameters ''duration''
         \<and> dict_get parameters ''duration'' JNull \<notin> {JStr ''5s'', JStr ''9s''}
      then [Log Warning (''Unsupported duration value: ''
              @ py_str (dict_get parameters ''duration'' JNull)
              @ ''. Only '' @ [sq] @ ''5s'' @ [sq] @ '' or '' @ [sq] @ ''9s'' @ [sq]
              @ '' are supported.'')]
      else [])"

fun frame_type :: "json \<Rightarrow> exn + json" where
  "frame_type (JObj d) = Inr (dict_get d ''type'' JNull)"
| "frame_type v =
     Inl (OtherError ([sq] @ type_name v @ [sq] @ '' object has no attribute ''
                      @ [sq] @ ''get'' @ [sq]))"

definition frame0_log_info :: "dict \<Rightarrow> exn + string list" where
  "frame0_log_info keyframes =
     (if has_key keyframes ''frame0'' then
        (case frame_type (dict_get keyframes ''frame0'' JNull) of
           Inl e \<Rightarrow> Inl e
         | Inr t \<Rightarrow>
             Inr (if t = JStr ''image'' then [''starting from image'']
                  else if t = JStr ''generation'' then [''extending existing video'']
                  else []))
      else Inr [])"

definition frame1_log_info :: "dict \<Rightarrow> exn + string list" where
  "frame1_log_info keyframes =
     (if has_key keyframes ''frame1'' then
        (case frame_type (dict_get keyframes ''frame1'' JNull) of
           Inl e \<Rightarrow> Inl e
         | Inr t \<Rightarrow>
             Inr (if t = JStr ''image'' then [''ending with image'']
                  else if t = JStr ''generation'' then
                    (if has_key keyframes ''frame0'' then [''interpolating between videos'']
                     else [''reverse extending to existing video''])
                  else []))
      else Inr [])"

definition keyframe_log_info :: "dict \<Rightarrow> exn + string list" where
  "keyframe_log_info keyframes =
     (case frame0_log_info keyframes of
        Inl e \<Rightarrow> Inl e
      | Inr i0 \<Rightarrow>
          (case frame1_log_info keyframes of
             Inl e \<Rightarrow> Inl e
           | Inr i1 \<Rightarrow> Inr (i0 @ i1)))"

fun check_keyframes_value :: "json \<Rightarrow> exn + event list" where
  "check_keyframes_value (JObj keyframes) =
     (if \<not> (has_key keyframes ''frame0'' \<or> has_key keyframes ''frame1'')
      then Inl (ValueError ''keyframes must contain frame0 or frame1'')
      else case keyframe_log_info keyframes of
             Inl e \<Rightarrow> Inl e
           | Inr info \<Rightarrow>
               Inr [Log Info (''Creating generation with keyframes: '' @ str_join '', '' info)])"
| "check_keyframes_value v = Inl (ValueError ''keyframes must be an object'')"

definition check_keyframes :: "dict \<Rightarrow> exn + event list" where
  "check_keyframes parameters =
     (if has_keyframes parameters
      then check_keyframes_value (dict_get parameters ''keyframes'' JNull)
      else Inr [])"

definition frame0_info :: "dict \<Rightarrow> exn + string list" where
  "frame0_info keyframes =
     (if has_key keyframes ''frame0'' then
        (case frame_type (dict_get keyframes ''frame0'' JNull) of
           Inl e \<Rightarrow> Inl e
         | Inr t \<Rightarrow>
             Inr (if t = JStr ''image'' then [''starting from an image'']
                  else if t = JStr ''generation'' then [''extending an existing video'']
                  else []))
      else Inr [])"

definition frame1_info :: "dict \<Rightarrow> exn + string list" where
  "frame1_info keyframes =
     (if has_key keyframes ''frame1'' then
        (case frame_type (dict_get keyframes ''frame1'' JNull) of
           Inl e \<Rightarrow> Inl e
         | Inr t \<Rightarrow>
             Inr (if t = JStr ''image'' then [''ending with an image'']
                  else if t = JStr ''generation'' then
                    (if has_key keyframes ''frame0'' then [''interpolating between videos'']
                     else [''reverse extending to an existing video''])
                  else []))
      else Inr [])"

definition keyframe_info :: "dict \<Rightarrow> exn + string list" where
  "keyframe_info keyframes =
     (case frame0_info keyframes of
        Inl e \<Rightarrow> Inl e
      | Inr i0 \<Rightarrow>
          (case frame1_info keyframes of
             Inl e \<Rightarrow> Inl e
           | Inr i1 \<Rightarrow> Inr (i0 @ i1)))"

fun keyframes_of :: "json \<Rightarrow> dict" where
  "keyframes_of (JObj keyframes) = keyframes"
| "keyframes_of v = []"

definition created_details :: "dict \<Rightarrow> dict \<Rightarrow> string" where
  "created_details parameters result =
     '' with ID: '' @ py_str (dict_get result ''id'' (JStr ''Unknown'')) @ [nl]
     @ ''State: '' @ py_str (dict_get result ''state'' (JStr ''Processing'')) @ [nl]
     @ ''Created at: '' @ py_str (dict_get result ''created_at'' (JStr ''Unknown'')) @ [nl]
     @ ''Model: ''
     @ py_str (dict_get result ''model'' (dict_get parameters ''model'' (JStr ''ray-2''))) @ [nl]
     @ ''Prompt: '' @ py_str (dict_get parameters ''prompt'' JNull)"

definition unexpected_format :: "json \<Rightarrow> string \<Rightarrow> string" where
  "unexpected_format result expected =
     ''Error: Unexpected response format from Luma API. Got '' @ type_name result
     @ '' instead of '' @ expected @ ''.''"

definition unexpected_format_log :: "json \<Rightarrow> event" where
  "unexpected_format_log result =
     Log Error (''Unexpected response format from Luma API: '' @ py_str result)"

fun render_created :: "dict \<Rightarrow> dict \<Rightarrow> json \<Rightarrow> (exn + string) \<times> event list" where
  "render_created parameters data (JObj result) =
     (if dict_get result ''generation_type'' (JStr ''video'') = JStr ''image'' then
        (Inr (''Created image generation'' @ created_details parameters result), [])
      else if has_keyframes data then
        (case keyframe_info (keyframes_of (dict_get data ''keyframes'' (JObj []))) of
           Inl e \<Rightarrow> (Inl e, [])
         | Inr info \<Rightarrow>
             (Inr (''Created advanced generation ('' @ str_join '', '' info @ '')''
                   @ created_details parameters result), []))
      else
        (Inr (''Created text-to-video generation'' @ created_details parameters result), []))"
| "render_created parameters data result =
     (Inr (unexpected_format result ''dict''), [unexpected_format_log result])"

definition create_generation_body ::
  "world \<Rightarrow> dict \<Rightarrow> string option \<Rightarrow> (exn + string) \<times> event list" where
  "create_generation_body w parameters api_key =
     (if \<not> truthy (dict_get parameters ''prompt'' JNull)
      then (Inl (ValueError ''prompt parameter is required''), [])
      else case check_keyframes parameters of
        Inl e \<Rightarrow> (Inl e, duration_warning parameters)
      | Inr info \<Rightarrow>
         (case make_luma_request w 0 ''POST'' ''generations'' api_key
                 (Some (create_data parameters)) None of
            (Inl e, evs) \<Rightarrow> (Inl e, duration_warning parameters @ info @ evs)
          | (Inr result, evs) \<Rightarrow>
              (fst (render_created parameters (create_data parameters) result),
               duration_warning parameters @ info @ evs
               @ snd (render_created parameters (create_data parameters) result))))"

definition create_generation ::
  "world \<Rightarrow> dict \<Rightarrow> string option \<Rightarrow> string \<times> event list" where
  "create_generation w parameters api_key =
     try_except (create_generation_body w parameters api_key) ''create_generation''
       (\<lambda>m. ''Error creating generation: '' @ m)"

subsection \<open>Pieces the renderings share\<close>

text \<open>
  The source repeats these steps in several handlers: a non-dict \<^verbatim>\<open>request\<close> or
  \<^verbatim>\<open>assets\<close> field counts as empty, the type label comes from \<^verbatim>\<open>generation_type\<close> and
  the echoed keyframes, and a failed state carries its reason.
\<close>

fun as_dict :: "json \<Rightarrow> dict" where
  "as_dict (JObj d) = d"
| "as_dict v = []"

definition is_image :: "dict \<Rightarrow> bool" where
  "is_image gen = (dict_get gen ''generation_type'' (JStr ''video'') = JStr ''image'')"

definition type_display :: "dict \<Rightarrow> string" where
  "type_display gen =
     (let request_data = as_dict (dict_get gen ''request'' (JObj []));
          keyframes = dict_get request_data ''keyframes'' JNull
      in if is_image gen then ''Image''
         else if is_dict keyframes \<and> truthy keyframes then ''Advanced''
         else ''Text-to-video'')"

definition state_info :: "json \<Rightarrow> dict \<Rightarrow> string" where
  "state_info state result =
     py_str state @
     (if state = JStr ''failed'' \<and> truthy (dict_get result ''failure_reason'' (JStr []))
      then '' (Reason: '' @ py_str (dict_get result ''failure_reason'' (JStr [])) @ '')''
      else [])"

definition asset_line :: "dict \<Rightarrow> string \<Rightarrow> string \<Rightarrow> string list" where
  "asset_line assets k label =
     (if has_key assets k then [label @ '': '' @ py_str (dict_get assets k JNull)] else [])"

definition video_asset_lines :: "dict \<Rightarrow> string list" where
  "video_asset_lines assets =
     asset_line assets ''video'' ''Video URL''
     @ asset_line assets ''progress_video'' ''Progress video''
     @ asset_line assets ''image'' ''Thumbnail''"

subsection \<open>get_generation\<close>

fun render_generation :: "json \<Rightarrow> json \<Rightarrow> string \<times> event list" where
  "render_generation generation_id (JObj result) =
     (let request_data = as_dict (dict_get result ''request'' (JObj []));
          assets = as_dict (dict_get result ''assets'' (JObj []));
          asset_lines = (if is_image result then asset_line assets ''image'' ''Image URL''
                         else video_asset_lines assets)
      in (str_join [nl]
            [''Generation ID: '' @ py_str (dict_get result ''id'' generation_id),
             ''Type: '' @ type_display result,
             ''State: '' @ state_info (dict_get result ''state'' (JStr ''Unknown'')) result,
             ''Created at: '' @ py_str (dict_get result ''created_at'' (JStr ''Unknown'')),
             ''Model: '' @ py_str (dict_get result ''model'' (JStr ''Unknown'')),
             ''Prompt: '' @ py_str (dict_get request_data ''prompt'' (JStr ''Unknown'')),
             (if asset_lines \<noteq> [] then str_join [nl] asset_lines
              else ''No assets available yet'')], []))"
| "render_generation generation_id result =
     (unexpected_format result ''dict'', [unexpected_format_log result])"

definition get_generation_body ::
  "world \<Rightarrow> dict \<Rightarrow> string option \<Rightarrow> (exn + string) \<times> event list" where
  "get_generation_body w parameters api_key =
     (let generation_id = dict_get parameters ''generation_id'' JNull
      in if \<not> truthy generation_id
         then (Inl (ValueError ''generation_id parameter is required''), [])
         else case make_luma_request w 0 ''GET'' (''generations/'' @ py_str generation_id)
                     api_key None None of
                (Inl e, evs) \<Rightarrow> (Inl e, evs)
              | (Inr result, evs) \<Rightarrow>
                  (Inr (fst (render_generation generation_id result)),
                   evs @ snd (render_generation generation_id result)))"

definition get_generation :: "world \<Rightarrow> dict \<Rightarrow> string option \<Rightarrow> string \<times> event list" where
  "get_generation w parameters api_key =
     try_except (get_generation_body w parameters api_key) ''get_generation''
       (\<lambda>m. ''Error getting generation '' @ py_str (dict_get parameters ''generation_id'' JNull)
            @ '': '' @ m)"

subsection \<open>list_generations\<close>

definition generation_summary :: "dict \<Rightarrow> string" where
  "generation_summary gen =
     (let request_data = as_dict (dict_get gen ''request'' (JObj []));
          assets = as_dict (dict_get gen ''assets'' (JObj []))
      in ''ID: '' @ py_str (dict_get gen ''id'' (JStr ''Unknown ID'')) @ [nl]
         @ ''  Type: '' @ type_display gen @ [nl]
         @ ''  State: '' @ py_str (dict_get gen ''state'' (JStr ''Unknown state'')) @ [nl]
         @ ''  Created at: '' @ py_str (dict_get gen ''created_at'' (JStr ''Unknown date'')) @ [nl]
         @ ''  Prompt: '' @ py_str (dict_get request_data ''prompt'' (JStr ''Unknown prompt''))
         @ [nl]
         @ (if is_image gen
            then ''  Image URL: '' @ py_str (dict_get assets ''image'' (JStr ''Not available yet''))
            else ''  Video URL: '' @ py_str (dict_get assets ''video'' (JStr ''Not available yet'')))
         @ [nl])"

fun summaries :: "json list \<Rightarrow> string list \<times> event list" where
  "summaries [] = ([], [])"
| "summaries (JObj gen # gens) =
     (generation_summary gen # fst (summaries gens), snd (summaries gens))"
| "summaries (v # gens) =
     (fst (summaries gens),
      Log Warning (''Skipping non-dict generation: '' @ py_str v) # snd (summaries gens))"

fun first_list_field :: "dict \<Rightarrow> string list \<Rightarrow> json list option" where
  "first_list_field result [] = None"
| "first_list_field result (field # rest) =
     (case map_of result field of
        Some (JList xs) \<Rightarrow> Some xs
      | _ \<Rightarrow> first_list_field result rest)"

definition dict_keys :: "dict \<Rightarrow> json" where
  "dict_keys d = JList (map (\<lambda>kv. JStr (fst kv)) d)"

definition pagination_info :: "dict \<Rightarrow> json list \<Rightarrow> string" where
  "pagination_info result generations_list =
     ''Showing '' @ str_nat (length generations_list) @ '' of ''
     @ py_str (dict_get result ''count'' (JInt (int (length generations_list))))
     @ '' generations''
     @ (if truthy (dict_get result ''has_more'' (JBool False)) then '' (more available)'' else [])"

definition render_list :: "string list \<Rightarrow> json list \<Rightarrow> string \<times> event list" where
  "render_list header generations_list =
     (if generations_list = [] then (''No generations found'', [])
      else (str_join [nl] ((''Generations:'' # header) @ fst (summaries generations_list)),
            snd (summaries generations_list)))"

definition no_generations :: "dict \<Rightarrow> string \<times> event list" where
  "no_generations result =
     (''Response format from Luma API doesn'' @ [sq] @ ''t contain generations: ''
      @ py_str (JObj result),
      [Log Warning (''Unexpected response structure: dict_keys(''
                    @ py_repr (dict_keys result) @ '')'')])"

fun render_generations :: "json \<Rightarrow> string \<times> event list" where
  "render_generations (JObj result) =
     (case dict_get result ''generations'' JNull of
        JList generations_list \<Rightarrow>
          render_list [pagination_info result generations_list] generations_list
      | _ \<Rightarrow>
          if has_key result ''id'' \<and> has_key result ''state'' then render_list [] [JObj result]
          else (case first_list_field result [''data'', ''results'', ''items''] of
                  None \<Rightarrow> no_generations result
                | Some generations_list \<Rightarrow>
                    if generations_list = [] then no_generations result
                    else render_list [] generations_list))"
| "render_generations (JList generations_list) = render_list [] generations_list"
| "render_generations result =
     (unexpected_format result ''object with generations'', [unexpected_format_log result])"

definition list_generations_body ::
  "world \<Rightarrow> dict \<Rightarrow> string option \<Rightarrow> (exn + string) \<times> event list" where
  "list_generations_body w parameters api_key =
     (case make_luma_request w 0 ''GET'' ''generations'' api_key None
             (Some [(''limit'', dict_get parameters ''limit'' (JInt 10)),
                    (''offset'', dict_get parameters ''offset'' (JInt 0))]) of
        (Inl e, evs) \<Rightarrow> (Inl e, evs)
      | (Inr result, evs) \<Rightarrow>
          if \<not> truthy result then (Inr ''No generations found'', evs)
          else (Inr (fst (render_generations result)), evs @ snd (render_generations result)))"

definition list_generations :: "world \<Rightarrow> dict \<Rightarrow> string option \<Rightarrow> string \<times> event list" where
  "list_generations w parameters api_key =
     try_except (list_generations_body w parameters api_key) ''list_generations''
       (\<lambda>m. ''Error listing generations: '' @ m)"

subsection \<open>delete_generation\<close>

definition delete_generation_body ::
  "world \<Rightarrow> dict \<Rightarrow> string option \<Rightarrow> (exn + string) \<times> event list" where
  "delete_generation_body w parameters api_key =
     (let generation_id = dict_get parameters ''generation_id'' JNull
      in if \<not> truthy generation_id
         then (Inl (ValueError ''generation_id parameter is required''), [])
         else case make_luma_request w 0 ''DELETE'' (''generations/'' @ py_str generation_id)
                     api_key None None of
                (Inl e, evs) \<Rightarrow> (Inl e, evs)
              | (Inr result, evs) \<Rightarrow>
                  (Inr (''Generation '' @ py_str generation_id @ '' deleted successfully''), evs))"

definition delete_generation :: "world \<Rightarrow> dict \<Rightarrow> string option \<Rightarrow> string \<times> event list" where
  "delete_generation w parameters api_key =
     try_except (delete_generation_body w parameters api_key) ''delete_generation''
       (\<lambda>m. ''Error deleting generation '' @ py_str (dict_get parameters ''generation_id'' JNull)
            @ '': '' @ m)"

subsection \<open>upscale_generation\<close>

definition valid_resolutions :: "string list" where
  "valid_resolutions = [''540p'', ''720p'', ''1080p'', ''4k'']"

definition max_retries :: nat where
  "max_retries = 2"

definition same_resolution_error :: "json \<Rightarrow> exn" where
  "same_resolution_error resolution =
     ValueError (''Cannot upscale to '' @ py_str resolution
       @ '' because the original generation is already at this resolution. ''
       @ ''Please choose a higher resolution.'')"

definition retry_warning :: "nat \<Rightarrow> event" where
  "retry_warning retry_count =
     Log Warning (''Server error during upscale, retrying ('' @ str_nat retry_count @ ''/''
                  @ str_nat max_retries @ '')...'')"

text \<open>
  The \<^verbatim>\<open>while True\<close> loop around the request. \<open>retry_count\<close> is also the number of
  network calls made so far, so it selects the outcome of this attempt.
\<close>

function upscale_request ::
  "world \<Rightarrow> string option \<Rightarrow> json \<Rightarrow> json \<Rightarrow> nat \<Rightarrow> (exn + json) \<times> event list" where
  "upscale_request w api_key generation_id resolution retry_count =
     (case make_luma_request w retry_count ''POST''
             (''generations/'' @ py_str generation_id @ ''/upscale'') api_key
             (Some [(''resolution'', resolution)]) None of
        (Inr result, evs) \<Rightarrow> (Inr result, evs)
      | (Inl (OtherError m), evs) \<Rightarrow> (Inl (OtherError m), evs)
      | (Inl (ValueError error_msg), evs) \<Rightarrow>
          if sublist ''same resolution as the original'' error_msg then
            (Inl (same_resolution_error resolution), evs)
          else if sublist ''HTTP error 500'' error_msg \<and> retry_count < max_retries then
            (case upscale_request w api_key generation_id resolution (retry_count + 1) of
               (res, evs') \<Rightarrow> (res, evs @ [retry_warning (retry_count + 1), Sleep 2] @ evs'))
          else (Inl (ValueError error_msg), evs))"
  by pat_completeness auto
termination
  by (relation "measure (\<lambda>(w, api_key, generation_id, resolution, retry_count).
                  max_retries - retry_count)") auto

declare upscale_request.simps [simp del]

fun render_upscale :: "json \<Rightarrow> json \<Rightarrow> json \<Rightarrow> string \<times> event list" where
  "render_upscale generation_id resolution (JObj result) =
     (let asset_lines = (if is_dict (dict_get result ''assets'' (JObj []))
                         then video_asset_lines (as_dict (dict_get result ''assets'' (JObj [])))
                         else [])
      in (str_join [nl]
            ([''Upscale initiated for generation '' @ py_str (dict_get result ''id'' generation_id),
              ''Target resolution: ''
                @ py_str (dict_get result ''resolution''
                            (if truthy resolution then resolution else JStr ''Unknown'')),
              ''Status: '' @ state_info (dict_get result ''state'' (JStr ''Processing'')) result,
              ''Created at: '' @ py_str (dict_get result ''created_at'' (JStr ''Unknown'')),
              ''Model: '' @ py_str (dict_get result ''model'' (JStr ''Unknown''))]
             @ (if asset_lines \<noteq> [] then [[], ''Assets:''] @ asset_lines else [])), []))"
| "render_upscale generation_id resolution result =
     (''Upscale initiated for generation '' @ py_str generation_id @ ''. Response: ''
      @ py_str result,
      [Log Warning (''Unexpected response format from upscale: '' @ py_str result)])"

definition upscale_generation_body ::
  "world \<Rightarrow> dict \<Rightarrow> string option \<Rightarrow> (exn + string) \<times> event list" where
  "upscale_generation_body w parameters api_key =
     (let generation_id = dict_get parameters ''generation_id'' JNull;
          resolution = dict_get parameters ''resolution'' JNull
      in if \<not> truthy generation_id
         then (Inl (ValueError ''generation_id parameter is required''), [])
         else if \<not> truthy resolution
         then (Inl (ValueError ''resolution parameter is required for upscaling''), [])
         else if resolution \<notin> JStr ` set valid_resolutions
         then (Inl (ValueError (''Invalid resolution: '' @ py_str resolution
                      @ ''. Must be one of '' @ str_join '', '' valid_resolutions)), [])
         else case upscale_request w api_key generation_id resolution 0 of
                (Inl e, evs) \<Rightarrow> (Inl e, evs)
              | (Inr result, evs) \<Rightarrow>
                  (Inr (fst (render_upscale generation_id resolution result)),
                   evs @ snd (render_upscale generation_id resolution result)))"

definition detail_pattern :: string where
  "detail_pattern = [sq] @ ''detail'' @ [sq] @ '': '' @ [sq]"

text \<open>
  \<^verbatim>\<open>re.search(r"'detail': '([^']*)'", error_msg)\<close>: the leftmost place where the
  pattern's fixed part is followed by a run without a quote and then a quote; the
  result is that run.
\<close>

fun detail_match :: "string \<Rightarrow> string option" where
  "detail_match [] = None"
| "detail_match (c # cs) =
     (if prefix detail_pattern (c # cs)
         \<and> dropWhile (\<lambda>x. x \<noteq> sq) (drop (length detail_pattern) (c # cs)) \<noteq> []
      then Some (takeWhile (\<lambda>x. x \<noteq> sq) (drop (length detail_pattern) (c # cs)))
      else detail_match cs)"

definition upscale_error :: "dict \<Rightarrow> string \<Rightarrow> string \<times> event list" where
  "upscale_error parameters error_msg =
     (let head = ''Error upscaling generation ''
                 @ py_str (dict_get parameters ''generation_id'' JNull) @ '': ''
      in if sublist ''same resolution as the original'' error_msg then
           (head @ ''The requested resolution ('' @ py_str (dict_get parameters ''resolution'' JNull)
              @ '') is the same as the original. '' @ ''Please choose a higher resolution.'',
            [Log Error (''Resolution error in upscale_generation: '' @ error_msg)])
         else if sublist ''HTTP error 400'' error_msg then
           (head @ (case detail_match error_msg of None \<Rightarrow> ''Invalid request'' | Some d \<Rightarrow> d)
              @ ''. '' @ ''Common issues include:'' @ [nl]
              @ ''- The generation is not in a completed state'' @ [nl]
              @ ''- The requested resolution is not higher than the original'' @ [nl]
              @ ''- The generation was already upscaled'',
            [Log Error (''Bad request in upscale_generation: '' @ error_msg)])
         else if sublist ''HTTP error 500'' error_msg then
           (head @ ''Server Error. '' @ ''This could be due to:'' @ [nl]
              @ ''- The generation not being in a completed state'' @ [nl]
              @ ''- The generation already being upscaled'' @ [nl]
              @ ''- The Luma API experiencing temporary issues'' @ [nl, nl]
              @ ''Please check the generation status and try again later.'',
            [Log Error (''Server error in upscale_generation: '' @ error_msg)])
         else
           (head @ error_msg, [Log Error (''Error in upscale_generation: '' @ error_msg)]))"

definition upscale_generation :: "world \<Rightarrow> dict \<Rightarrow> string option \<Rightarrow> string \<times> event list" where
  "upscale_generation w parameters api_key =
     (case upscale_generation_body w parameters api_key of
        (Inr s, evs) \<Rightarrow> (s, evs)
      | (Inl e, evs) \<Rightarrow>
          (fst (upscale_error parameters (exn_str e)),
           evs @ snd (upscale_error parameters (exn_str e))))"

subsection \<open>add_audio\<close>

definition truthy_field :: "dict \<Rightarrow> string \<Rightarrow> dict" where
  "truthy_field parameters k =
     (if has_key parameters k \<and> truthy (dict_get parameters k JNull)
      then [(k, dict_get parameters k JNull)] else [])"

definition audio_data :: "dict \<Rightarrow> dict" where
  "audio_data parameters =
     [(''prompt'', dict_get parameters ''prompt'' JNull)]
     @ truthy_field parameters ''negative_prompt''
     @ truthy_field parameters ''callback_url''"

fun render_audio :: "json \<Rightarrow> json \<Rightarrow> dict \<Rightarrow> json \<Rightarrow> string \<times> event list" where
  "render_audio generation_id prompt request_data (JObj result) =
     (let asset_lines =
            (if is_dict (dict_get result ''assets'' (JObj []))
             then video_asset_lines (as_dict (dict_get result ''assets'' (JObj [])))
                  @ asset_line (as_dict (dict_get result ''assets'' (JObj []))) ''audio'' ''Audio URL''
             else [])
      in (str_join [nl]
            ([''Audio generation initiated for generation ''
                @ py_str (dict_get result ''id'' generation_id),
              ''Status: '' @ state_info (dict_get result ''state'' (JStr ''Processing'')) result,
              ''Created at: '' @ py_str (dict_get result ''created_at'' (JStr ''Unknown'')),
              ''Model: '' @ py_str (dict_get result ''model'' (JStr ''Unknown'')),
              ''Prompt: '' @ py_str prompt]
             @ (if has_key request_data ''negative_prompt''
                then [''Negative prompt: ''
                      @ py_str (dict_get request_data ''negative_prompt'' JNull)]
                else [])
             @ (if asset_lines \<noteq> [] then [[], ''Assets:''] @ asset_lines else [])), []))"
| "render_audio generation_id prompt request_data result =
     (''Audio generation initiated for generation '' @ py_str generation_id @ ''. Response: ''
      @ py_str result,
      [Log Warning (''Unexpected response format from add_audio: '' @ py_str result)])"

definition add_audio_body ::
  "world \<Rightarrow> dict \<Rightarrow> string option \<Rightarrow> (exn + string) \<times> event list" where
  "add_audio_body w parameters api_key =
     (let generation_id = dict_get parameters ''generation_id'' JNull;
          prompt = dict_get parameters ''prompt'' JNull
      in if \<not> truthy generation_id
         then (Inl (ValueError ''generation_id parameter is required''), [])
         else if \<not> truthy prompt
         then (Inl (ValueError ''prompt parameter is required for audio generation''), [])
         else case make_luma_request w 0 ''POST''
                     (''generations/'' @ py_str generation_id @ ''/audio'') api_key
                     (Some (audio_data parameters)) None of
                (Inl e, evs) \<Rightarrow> (Inl e, evs)
              | (Inr result, evs) \<Rightarrow>
                  (Inr (fst (render_audio generation_id prompt (audio_data parameters) result)),
                   evs @ snd (render_audio generation_id prompt (audio_data parameters) result)))"

definition add_audio :: "world \<Rightarrow> dict \<Rightarrow> string option \<Rightarrow> string \<times> event list" where
  "add_audio w parameters api_key =
     try_except (add_audio_body w parameters api_key) ''add_audio''
       (\<lambda>m. ''Error adding audio to generation ''
            @ py_str (dict_get parameters ''generation_id'' JNull) @ '': '' @ m)"

subsection \<open>generate_image\<close>

definition image_models :: "string list" where
  "image_models = [''photon-1'', ''photon-flash-1'']"

definition image_model :: "dict \<Rightarrow> json" where
  "image_model parameters =
     (if dict_get parameters ''model'' (JStr ''photon-1'') \<notin> JStr ` set image_models
      then JStr ''photon-1''
      else dict_get parameters ''model'' (JStr ''photon-1''))"

definition image_model_warning :: "dict \<Rightarrow> event list" where
  "image_model_warning parameters =
     (if dict_get parameters ''model'' (JStr ''photon-1'') \<notin> JStr ` set image_models
      then [Log Warning (''Unsupported image model: ''
              @ py_str (dict_get parameters ''model'' (JStr ''photon-1''))
              @ ''. Using '' @ [sq] @ ''photon-1'' @ [sq] @ '' instead. ''
              @ ''Only '' @ [sq] @ ''photon-1'' @ [sq] @ '' and '' @ [sq] @ ''photon-flash-1''
              @ [sq] @ '' are supported for image generation.'')]
      else [])"

definition image_data :: "dict \<Rightarrow> dict" where
  "image_data parameters =
     [(''prompt'', dict_get parameters ''prompt'' JNull), (''model'', image_model parameters)]"

fun render_image :: "dict \<Rightarrow> json \<Rightarrow> string \<times> event list" where
  "render_image parameters (JObj result) =
     (let assets = dict_get result ''assets'' (JObj [])
      in (str_join [nl]
            [''Image generation ''
               @ state_info (dict_get result ''state'' (JStr ''Processing'')) result,
             ''ID: '' @ py_str (dict_get result ''id'' (JStr ''Unknown'')),
             ''Created at: '' @ py_str (dict_get result ''created_at'' (JStr ''Unknown'')),
             ''Model: ''
               @ py_str (dict_get result ''model''
                           (dict_get parameters ''model'' (JStr ''ray-2''))),
             ''Prompt: '' @ py_str (dict_get parameters ''prompt'' JNull),
             ''Image URL: ''
               @ (if is_dict assets \<and> has_key (as_dict assets) ''image''
                  then py_str (dict_get (as_dict assets) ''image'' JNull)
                  else ''Image will be available when processing completes'')], []))"
| "render_image parameters result =
     (''Image generation completed for prompt: ''
      @ py_str (dict_get parameters ''prompt'' JNull) @ ''. Response: '' @ py_str result,
      [Log Warning (''Unexpected response format from generate_image: '' @ py_str result)])"

definition generate_image_body ::
  "world \<Rightarrow> dict \<Rightarrow> string option \<Rightarrow> (exn + string) \<times> event list" where
  "generate_image_body w parameters api_key =
     (if \<not> truthy (dict_get parameters ''prompt'' JNull)
      then (Inl (ValueError ''prompt parameter is required''), [])
      else case make_luma_request w 0 ''POST'' ''generations/image'' api_key
                  (Some (image_data parameters)) None of
             (Inl e, evs) \<Rightarrow> (Inl e, image_model_warning parameters @ evs)
           | (Inr result, evs) \<Rightarrow>
               (Inr (fst (render_image parameters result)),
                image_model_warning parameters @ evs @ snd (render_image parameters result)))"

definition generate_image :: "world \<Rightarrow> dict \<Rightarrow> string option \<Rightarrow> string \<times> event list" where
  "generate_image w parameters api_key =
     try_except (generate_image_body w parameters api_key) ''generate_image''
       (\<lambda>m. ''Error generating image for prompt '' @ [sq]
            @ py_str (dict_get parameters ''prompt'' JNull) @ [sq] @ '': '' @ m)"

subsection \<open>get_credits\<close>

fun render_credits :: "json \<Rightarrow> string \<times> event list" where
  "render_credits (JObj result) =
     (if has_key result ''credit_balance'' then
        (''Credit Information:'' @ [nl] @ ''Available Credits: ''
         @ py_str (dict_get result ''credit_balance'' (JStr ''Unknown'')), [])
      else
        (''Credit Information:'' @ [nl]
         @ ''Available Credits: ''
         @ py_str (dict_get result ''credits_available'' (JStr ''Unknown'')) @ [nl]
         @ ''Used Credits: '' @ py_str (dict_get result ''credits_used'' (JStr ''Unknown'')) @ [nl]
         @ ''Total Credits: '' @ py_str (dict_get result ''credits_total'' (JStr ''Unknown'')), []))"
| "render_credits result =
     (''Credit Information: '' @ py_str result,
      [Log Warning (''Unexpected response format from get_credits: '' @ py_str result)])"

definition get_credits_body ::
  "world \<Rightarrow> dict \<Rightarrow> string option \<Rightarrow> (exn + string) \<times> event list" where
  "get_credits_body w parameters api_key =
     (case make_luma_request w 0 ''GET'' ''credits'' api_key None None of
        (Inl e, evs) \<Rightarrow> (Inl e, evs)
      | (Inr result, evs) \<Rightarrow> (Inr (fst (render_credits result)), evs @ snd (render_credits result)))"

definition get_credits :: "world \<Rightarrow> dict \<Rightarrow> string option \<Rightarrow> string \<times> event list" where
  "get_credits w parameters api_key =
     try_except (get_credits_body w parameters api_key) ''get_credits''
       (\<lambda>m. ''Error retrieving credit information: '' @ m)"

subsection \<open>get_camera_motions\<close>






section \<open>Failures of the upstream call\<close>

text \<open>
  The outcomes that the gateway turns into an exception: a transport fault, any other
  exception of the request, and a response with a status of 400 or more that has a
  body (without a body the gateway returns the empty object before it looks at the
  status).
\<close>

fun upstream_failure :: "outcome \<Rightarrow> bool" where
  "upstream_failure (RequestError m) = True"
| "upstream_failure (Raised e) = True"
| "upstream_failure (Responded r) = (status_code r \<ge> 400 \<and> content r \<noteq> [])"

text \<open>The events of a call without its log records: the requests and the pauses, in order.\<close>

fun timeline :: "event list \<Rightarrow> event list" where
  "timeline [] = []"
| "timeline (Log l m # evs) = timeline evs"
| "timeline (e # evs) = e # timeline evs"


section \<open>Sample worlds\<close>

text \<open>
  Concrete replies and worlds on which the theorems below are instantiated: a reply with
  a JSON body that decodes to a given value, and a world with the credential
  \<^verbatim>\<open>test-key\<close> in the environment.
\<close>

definition json_response :: "int \<Rightarrow> json \<Rightarrow> response" where
  "json_response status v =
     \<lparr> status_code = status, content = ''{}'', content_type = ''application/json'',
       body_text = ''{}'', body_json = Inr v \<rparr>"

definition json_reply :: "int \<Rightarrow> json \<Rightarrow> outcome" where
  "json_reply status v = Responded (json_response status v)"

definition empty_reply :: "int \<Rightarrow> outcome" where
  "empty_reply status =
     Responded \<lparr> status_code = status, content = [], content_type = [],
                 body_text = [], body_json = Inl ''Expecting value'' \<rparr>"

definition test_world :: "(nat \<Rightarrow> outcome) \<Rightarrow> world" where
  "test_world f = \<lparr> env_key = Some ''test-key'', replies = f \<rparr>"

definition pending_reply :: outcome where
  "pending_reply = json_reply 200 (JObj [(''id'', JStr ''test-id''), (''state'', JStr ''pending'')])"

definition image_frame :: dict where
  "image_frame = [(''type'', JStr ''image''), (''url'', JStr ''https://example.com/i.jpg'')]"

definition generation_frame :: dict where
  "generation_frame = [(''type'', JStr ''generation''), (''id'', JStr ''gen-1'')]"

definition with_keyframes :: "dict \<Rightarrow> dict" where
  "with_keyframes keyframes = [(''prompt'', JStr ''p''), (''keyframes'', JObj keyframes)]"



definition upscale_arguments :: dict where
  "upscale_arguments = [(''generation_id'', JStr ''g''), (''resolution'', JStr ''1080p'')]"

definition upscaled :: dict where
  "upscaled = [(''id'', JStr ''u''), (''state'', JStr ''processing'')]"

definition sample_generation :: dict where
  "sample_generation =
     [(''id'', JStr ''a''), (''state'', JStr ''completed''),
      (''assets'', JObj [(''video'', JStr ''https://example.com/video.mp4'')])]"


section \<open>Facts about the gateway and the wrapper\<close>

lemma calls_append: "calls (xs @ ys) = calls xs @ calls ys"
  by (induction xs rule: calls.induct) simp_all

lemma calls_response_json: "calls (snd (response_json r)) = []"
  by (simp add: response_json_def split: sum.split)

lemma calls_decode_body: "calls (snd (decode_body r)) = []"
  by (simp add: decode_body_def calls_response_json)

lemma calls_read_response: "calls (snd (read_response r)) = []"
  using calls_decode_body [of r]
  by (cases "decode_body r") (simp add: read_response_def unexpected_def calls_append)

lemma calls_receive: "calls (snd (receive out)) = []"
  by (cases out) (simp_all add: unexpected_def calls_read_response)

lemma calls_send_request: "calls (snd (send_request w n req)) = [req]"
  by (simp add: send_request_def calls_receive)

lemma fst_send_request: "fst (send_request w n req) = fst (receive (replies w n))"
  by (simp add: send_request_def)

lemma make_luma_request_Some:
  "credential w api_key = Some k \<Longrightarrow>
   make_luma_request w n meth endpoint api_key body query =
   send_request w n (build_request meth endpoint k body query)"
  by (simp add: make_luma_request_def)

lemma make_luma_request_None:
  "credential w api_key = None \<Longrightarrow>
   make_luma_request w n meth endpoint api_key body query = (Inl missing_key, [])"
  by (simp add: make_luma_request_def)

lemma fst_try_except_Inr: "fst body = Inr s \<Longrightarrow> fst (try_except body name on_error) = s"
  by (cases body) (simp add: try_except_def)

lemma fst_try_except_Inl:
  "fst body = Inl e \<Longrightarrow> fst (try_except body name on_error) = on_error (exn_str e)"
  by (cases body) (simp add: try_except_def)

lemma calls_try_except: "calls (snd (try_except body name on_error)) = calls (snd body)"
  by (cases body) (simp add: try_except_def calls_append split: sum.split)

lemma credential_test_world: "credential (test_world f) None = Some ''test-key''"
  by (simp add: credential_def test_world_def)

lemma receive_json_reply: "status < 400 \<Longrightarrow> fst (receive (json_reply status v)) = Inr v"
  by (simp add: json_reply_def json_response_def read_response_def decode_body_def
      response_json_def)

text \<open>The definitions to unfold when a handler is run on a sample world.\<close>

lemmas text_defs = str_int_def str_nat.simps digit_def repr_str_def escape_char_def
  printable_def sq_def dq_def bslash_def Let_def

lemmas gateway_defs = make_luma_request_def credential_def send_request_def read_response_def
  decode_body_def response_json_def raw_response_def http_error_def unexpected_def
  try_except_def test_world_def json_reply_def json_response_def empty_reply_def

section \<open>Required arguments are checked before the gateway is called\<close>

lemma create_generation_no_prompt:
  "\<not> truthy (dict_get parameters ''prompt'' JNull) \<Longrightarrow>
   create_generation w parameters api_key =
     (''Error creating generation: prompt parameter is required'',
      [Log Error ''Error in create_generation: prompt parameter is required''])"
  by (simp add: create_generation_def create_generation_body_def try_except_def)

lemma get_generation_no_id:
  "\<not> truthy (dict_get parameters ''generation_id'' JNull) \<Longrightarrow>
   get_generation w parameters api_key =
     (''Error getting generation '' @ py_str (dict_get parameters ''generation_id'' JNull)
        @ '': generation_id parameter is required'',
      [Log Error ''Error in get_generation: generation_id parameter is required''])"
  by (simp add: get_generation_def get_generation_body_def try_except_def)

lemma delete_generation_no_id:
  "\<not> truthy (dict_get parameters ''generation_id'' JNull) \<Longrightarrow>
   delete_generation w parameters api_key =
     (''Error deleting generation '' @ py_str (dict_get parameters ''generation_id'' JNull)
        @ '': generation_id parameter is required'',
      [Log Error ''Error in delete_generation: generation_id parameter is required''])"
  by (simp add: delete_generation_def delete_generation_body_def try_except_def)

lemma upscale_error_plain:
  "\<not> sublist ''same resolution as the original'' m \<Longrightarrow> \<not> sublist ''HTTP error 400'' m \<Longrightarrow>
   \<not> sublist ''HTTP error 500'' m \<Longrightarrow>
   upscale_error parameters m =
     (''Error upscaling generation '' @ py_str (dict_get parameters ''generation_id'' JNull)
        @ '': '' @ m,
      [Log Error (''Error in upscale_generation: '' @ m)])"
  by (simp add: upscale_error_def)

lemma upscale_generation_no_id:
  "\<not> truthy (dict_get parameters ''generation_id'' JNull) \<Longrightarrow>
   upscale_generation w parameters api_key =
     (''Error upscaling generation '' @ py_str (dict_get parameters ''generation_id'' JNull)
        @ '': generation_id parameter is required'',
      [Log Error ''Error in upscale_generation: generation_id parameter is required''])"
  by (simp add: upscale_generation_def upscale_generation_body_def upscale_error_plain
      sublist_Cons_right)

lemma upscale_generation_no_resolution:
  "truthy (dict_get parameters ''generation_id'' JNull) \<Longrightarrow>
   \<not> truthy (dict_get parameters ''resolution'' JNull) \<Longrightarrow>
   upscale_generation w parameters api_key =
     (''Error upscaling generation '' @ py_str (dict_get parameters ''generation_id'' JNull)
        @ '': resolution parameter is required for upscaling'',
      [Log Error ''Error in upscale_generation: resolution parameter is required for upscaling''])"
  by (simp add: upscale_generation_def upscale_generation_body_def upscale_error_plain
      sublist_Cons_right)

lemma add_audio_no_id:
  "\<not> truthy (dict_get parameters ''generation_id'' JNull) \<Longrightarrow>
   add_audio w parameters api_key =
     (''Error adding audio to generation '' @ py_str (dict_get parameters ''generation_id'' JNull)
        @ '': generation_id parameter is required'',
      [Log Error ''Error in add_audio: generation_id parameter is required''])"
  by (simp add: add_audio_def add_audio_body_def try_except_def)

lemma add_audio_no_prompt:
  "truthy (dict_get parameters ''generation_id'' JNull) \<Longrightarrow>
   \<not> truthy (dict_get parameters ''prompt'' JNull) \<Longrightarrow>
   add_audio w parameters api_key =
     (''Error adding audio to generation '' @ py_str (dict_get parameters ''generation_id'' JNull)
        @ '': prompt parameter is required for audio generation'',
      [Log Error ''Error in add_audio: prompt parameter is required for audio generation''])"
  by (simp add: add_audio_def add_audio_body_def try_except_def)

lemma generate_image_no_prompt:
  "\<not> truthy (dict_get parameters ''prompt'' JNull) \<Longrightarrow>
   generate_image w parameters api_key =
     (''Error generating image for prompt '' @ [sq]
        @ py_str (dict_get parameters ''prompt'' JNull) @ [sq]
        @ '': prompt parameter is required'',
      [Log Error ''Error in generate_image: prompt parameter is required''])"
  by (simp add: generate_image_def generate_image_body_def try_except_def)

section \<open>create_generation once its arguments are accepted\<close>

lemma calls_duration_warning: "calls (duration_warning parameters) = []"
  by (simp add: duration_warning_def)

lemma calls_check_keyframes_value: "check_keyframes_value v = Inr info \<Longrightarrow> calls info = []"
  by (cases v) (auto split: if_splits sum.splits)

lemma calls_check_keyframes: "check_keyframes parameters = Inr info \<Longrightarrow> calls info = []"
  by (auto simp add: check_keyframes_def calls_check_keyframes_value split: if_splits)

lemma calls_render_created: "calls (snd (render_created parameters data result)) = []"
  by (cases result) (simp_all add: unexpected_format_log_def split: sum.split)

lemma create_generation_body_sent:
  assumes "truthy (dict_get parameters ''prompt'' JNull)"
    and "check_keyframes parameters = Inr info"
    and "credential w api_key = Some k"
  shows "create_generation_body w parameters api_key =
           (case send_request w 0 (build_request ''POST'' ''generations'' k
                                     (Some (create_data parameters)) None) of
              (Inl e, evs) \<Rightarrow> (Inl e, duration_warning parameters @ info @ evs)
            | (Inr result, evs) \<Rightarrow>
                (fst (render_created parameters (create_data parameters) result),
                 duration_warning parameters @ info @ evs
                 @ snd (render_created parameters (create_data parameters) result)))"
  using assms by (simp add: create_generation_body_def make_luma_request_Some)

lemma create_generation_calls:
  assumes "truthy (dict_get parameters ''prompt'' JNull)"
    and "check_keyframes parameters = Inr info"
    and "credential w api_key = Some k"
  shows "calls (snd (create_generation w parameters api_key)) =
           [build_request ''POST'' ''generations'' k (Some (create_data parameters)) None]"
proof -
  let ?req = "build_request ''POST'' ''generations'' k (Some (create_data parameters)) None"
  obtain res evs where s: "send_request w 0 ?req = (res, evs)"
    by (cases "send_request w 0 ?req") blast
  have c: "calls evs = [?req]"
    using calls_send_request [of w 0 ?req] s by simp
  show ?thesis
    using create_generation_body_sent [OF assms] s c calls_check_keyframes [OF assms(2)]
    by (simp add: create_generation_def calls_try_except calls_append calls_duration_warning
        calls_render_created split: sum.split)
qed

lemma create_generation_replied:
  assumes "truthy (dict_get parameters ''prompt'' JNull)"
    and "check_keyframes parameters = Inr info"
    and "credential w api_key = Some k"
    and "fst (receive (replies w 0)) = Inr result"
  shows "fst (create_generation_body w parameters api_key) =
           fst (render_created parameters (create_data parameters) result)"
proof -
  let ?req = "build_request ''POST'' ''generations'' k (Some (create_data parameters)) None"
  obtain res evs where s: "send_request w 0 ?req = (res, evs)"
    by (cases "send_request w 0 ?req") blast
  have r: "res = Inr result"
    using fst_send_request [of w 0 ?req] s assms(4) by simp
  show ?thesis
    using create_generation_body_sent [OF assms(1-3)] s r by simp
qed

lemma sublist_in_append: "sublist xs (ps @ xs @ ss)"
  by (auto simp add: sublist_def)

section \<open>Keyframes of a create_generation request\<close>

lemma map_of_create_data_keyframes:
  "map_of (create_data parameters) ''keyframes'' =
     (if has_keyframes parameters then Some (dict_get parameters ''keyframes'' JNull) else None)"
  by (simp add: create_data_def optional_params_def)

lemma has_keyframes_create_data:
  "has_keyframes (create_data parameters) = has_keyframes parameters"
  using map_of_create_data_keyframes [of parameters]
  by (auto simp add: has_keyframes_def has_key_def dict_get_def)

lemma dict_get_create_data_keyframes:
  "has_keyframes parameters \<Longrightarrow>
   dict_get (create_data parameters) ''keyframes'' dflt = dict_get parameters ''keyframes'' JNull"
  using map_of_create_data_keyframes [of parameters] by (simp add: dict_get_def)

lemma keyframe_log_info_total:
  "keyframe_info keyframes = Inr info \<Longrightarrow> \<exists>l. keyframe_log_info keyframes = Inr l"
  by (auto simp add: keyframe_info_def keyframe_log_info_def frame0_info_def frame1_info_def
      frame0_log_info_def frame1_log_info_def split: sum.splits if_splits)

lemma keyframe_info_total:
  "keyframe_log_info keyframes = Inr l \<Longrightarrow> \<exists>info. keyframe_info keyframes = Inr info"
  by (auto simp add: keyframe_info_def keyframe_log_info_def frame0_info_def frame1_info_def
      frame0_log_info_def frame1_log_info_def split: sum.splits if_splits)

lemma check_keyframes_accepts:
  assumes "map_of parameters ''keyframes'' = Some (JObj keyframes)"
    and "has_key keyframes ''frame0'' \<or> has_key keyframes ''frame1''"
    and "keyframe_info keyframes = Inr info"
  shows "has_keyframes parameters" and "\<exists>l. check_keyframes parameters = Inr l"
proof -
  have ne: "keyframes \<noteq> []"
    using assms(2) by (auto simp add: has_key_def)
  show h: "has_keyframes parameters"
    using assms(1) ne by (simp add: has_keyframes_def has_key_def dict_get_def)
  obtain l where "keyframe_log_info keyframes = Inr l"
    using keyframe_log_info_total [OF assms(3)] by blast
  then show "\<exists>l. check_keyframes parameters = Inr l"
    using h assms(1,2) by (auto simp add: check_keyframes_def dict_get_def)
qed

lemma create_generation_advanced:
  assumes "truthy (dict_get parameters ''prompt'' JNull)"
    and "map_of parameters ''keyframes'' = Some (JObj keyframes)"
    and "has_key keyframes ''frame0'' \<or> has_key keyframes ''frame1''"
    and "keyframe_info keyframes = Inr info"
    and "credential w api_key = Some k"
    and "fst (receive (replies w 0)) = Inr (JObj result)"
    and "map_of result ''generation_type'' \<noteq> Some (JStr ''image'')"
  shows "fst (create_generation w parameters api_key) =
           ''Created advanced generation ('' @ str_join '', '' info @ '')''
           @ created_details parameters result"
proof -
  have h: "has_keyframes parameters"
    by (rule check_keyframes_accepts(1) [OF assms(2-4)])
  obtain l where l: "check_keyframes parameters = Inr l"
    using check_keyframes_accepts(2) [OF assms(2-4)] by blast
  have t: "dict_get result ''generation_type'' (JStr ''video'') \<noteq> JStr ''image''"
    using assms(7) by (auto simp add: dict_get_def split: option.split)
  have kf: "dict_get (create_data parameters) ''keyframes'' (JObj []) = JObj keyframes"
    using dict_get_create_data_keyframes [OF h] assms(2) by (simp add: dict_get_def)
  have "fst (create_generation_body w parameters api_key)
        = fst (render_created parameters (create_data parameters) (JObj result))"
    by (rule create_generation_replied [OF assms(1) l assms(5,6)])
  then show ?thesis
    using t h kf assms(4)
    by (simp add: create_generation_def fst_try_except_Inr has_keyframes_create_data)
qed

lemma interpolating_needs_both:
  assumes "keyframe_info keyframes = Inr info"
    and "sublist ''interpolating between videos'' (str_join '', '' info)"
  shows "has_key keyframes ''frame0'' \<and> has_key keyframes ''frame1''"
proof (rule ccontr)
  assume n: "\<not> (has_key keyframes ''frame0'' \<and> has_key keyframes ''frame1'')"
  have "info \<in> {[], [''starting from an image''], [''extending an existing video''],
                 [''ending with an image''], [''reverse extending to an existing video'']}"
    using assms(1) n
    by (auto simp add: keyframe_info_def frame0_info_def frame1_info_def
        split: sum.splits if_splits)
  then show False
    using assms(2) by (auto simp add: sublist_Cons_right)
qed

section \<open>Failures raise inside the handler, and what is raised becomes an error text\<close>

lemma upstream_failure_raises: "upstream_failure out = isl (fst (receive out))"
proof (cases out)
  case (Responded r)
  then show ?thesis
    by (cases "decode_body r") (simp add: read_response_def)
qed simp_all

lemma make_luma_request_raises:
  assumes "credential w api_key = None \<or> upstream_failure (replies w n)"
  shows "isl (fst (make_luma_request w n meth endpoint api_key body query))"
proof (cases "credential w api_key")
  case None
  then show ?thesis by (simp add: make_luma_request_None)
next
  case (Some k)
  then show ?thesis
    using assms by (simp add: make_luma_request_Some fst_send_request upstream_failure_raises)
qed

lemma raises_through:
  "isl (fst r) \<Longrightarrow> isl (fst (case r of (Inl e, evs) \<Rightarrow> (Inl e, f e evs)
                                        | (Inr v, evs) \<Rightarrow> g v evs))"
  by (cases r) (auto split: sum.split)



lemma upscale_request_raises_last:
  assumes "credential w api_key = None \<or> upstream_failure (replies w 2)"
  shows "isl (fst (upscale_request w api_key generation_id resolution 2))"
  using make_luma_request_raises [OF assms, of "''POST''"
      "''generations/'' @ py_str generation_id @ ''/upscale''"
      "Some [(''resolution'', resolution)]" None]
  by (subst upscale_request.simps)
    (auto simp add: max_retries_def same_resolution_error_def split: prod.split sum.split exn.split)

lemma upscale_request_raises_second:
  assumes "credential w api_key = None
           \<or> upstream_failure (replies w 1) \<and> upstream_failure (replies w 2)"
  shows "isl (fst (upscale_request w api_key generation_id resolution 1))"
proof -
  have l: "isl (fst (upscale_request w api_key generation_id resolution 2))"
    using assms upscale_request_raises_last [of w api_key generation_id resolution] by blast
  have m: "isl (fst (make_luma_request w 1 ''POST''
             (''generations/'' @ py_str generation_id @ ''/upscale'') api_key
             (Some [(''resolution'', resolution)]) None))"
    using assms make_luma_request_raises by blast
  show ?thesis
    using l m
    by (subst upscale_request.simps)
      (auto simp add: same_resolution_error_def numeral_2_eq_2
        split: prod.split sum.split exn.split)
qed

lemma upscale_request_raises:
  assumes "credential w api_key = None
           \<or> upstream_failure (replies w 0) \<and> upstream_failure (replies w 1)
             \<and> upstream_failure (replies w 2)"
  shows "isl (fst (upscale_request w api_key generation_id resolution 0))"
proof -
  have l: "isl (fst (upscale_request w api_key generation_id resolution 1))"
    using assms upscale_request_raises_second [of w api_key generation_id resolution] by blast
  have m: "isl (fst (make_luma_request w 0 ''POST''
             (''generations/'' @ py_str generation_id @ ''/upscale'') api_key
             (Some [(''resolution'', resolution)]) None))"
    using assms make_luma_request_raises by blast
  show ?thesis
    using l m
    by (subst upscale_request.simps)
      (auto simp add: same_resolution_error_def split: prod.split sum.split exn.split)
qed






lemma upscale_generation_body_raises:
  assumes "\<not> truthy (dict_get parameters ''generation_id'' JNull)
           \<or> dict_get parameters ''resolution'' JNull \<notin> JStr ` set valid_resolutions
           \<or> credential w api_key = None
           \<or> upstream_failure (replies w 0) \<and> upstream_failure (replies w 1)
             \<and> upstream_failure (replies w 2)"
  shows "isl (fst (upscale_generation_body w parameters api_key))"
proof (cases "truthy (dict_get parameters ''generation_id'' JNull)
              \<and> truthy (dict_get parameters ''resolution'' JNull)
              \<and> dict_get parameters ''resolution'' JNull \<in> JStr ` set valid_resolutions")
  case False
  then show ?thesis by (auto simp add: upscale_generation_body_def Let_def)
next
  case True
  then have "credential w api_key = None
             \<or> upstream_failure (replies w 0) \<and> upstream_failure (replies w 1)
               \<and> upstream_failure (replies w 2)"
    using assms by blast
  then have "isl (fst (upscale_request w api_key (dict_get parameters ''generation_id'' JNull)
                         (dict_get parameters ''resolution'' JNull) 0))"
    by (rule upscale_request_raises)
  then show ?thesis
    using True by (auto simp add: upscale_generation_body_def Let_def split: prod.split sum.split)
qed






section \<open>The retry loop of upscale_generation, one attempt at a time\<close>

lemma timeline_append: "timeline (xs @ ys) = timeline xs @ timeline ys"
  by (induction xs rule: timeline.induct) simp_all

lemma timeline_response_json: "timeline (snd (response_json r)) = []"
  by (simp add: response_json_def split: sum.split)

lemma timeline_decode_body: "timeline (snd (decode_body r)) = []"
  by (simp add: decode_body_def timeline_response_json)

lemma timeline_read_response: "timeline (snd (read_response r)) = []"
  using timeline_decode_body [of r]
  by (cases "decode_body r") (simp add: read_response_def unexpected_def timeline_append)

lemma timeline_receive: "timeline (snd (receive out)) = []"
  by (cases out) (simp_all add: unexpected_def timeline_read_response)

lemma timeline_render_upscale: "timeline (snd (render_upscale generation_id resolution result)) = []"
  by (cases result) (simp_all add: Let_def)

lemma calls_render_upscale: "calls (snd (render_upscale generation_id resolution result)) = []"
  by (cases result) (simp_all add: Let_def)

lemma timeline_upscale_error: "timeline (snd (upscale_error parameters m)) = []"
  by (simp add: upscale_error_def Let_def)

lemma calls_upscale_error: "calls (snd (upscale_error parameters m)) = []"
  by (simp add: upscale_error_def Let_def)

lemma upscale_request_done:
  assumes "credential w api_key = Some k"
    and "fst (receive (replies w retry_count)) = Inr result"
  shows "upscale_request w api_key generation_id resolution retry_count =
           (Inr result,
            Call (build_request ''POST'' (''generations/'' @ py_str generation_id @ ''/upscale'')
                    k (Some [(''resolution'', resolution)]) None)
            # snd (receive (replies w retry_count)))"
  using assms
  by (subst upscale_request.simps) (simp add: make_luma_request_Some send_request_def)

lemma upscale_request_other:
  assumes "credential w api_key = Some k"
    and "fst (receive (replies w retry_count)) = Inl (OtherError m)"
  shows "upscale_request w api_key generation_id resolution retry_count =
           (Inl (OtherError m),
            Call (build_request ''POST'' (''generations/'' @ py_str generation_id @ ''/upscale'')
                    k (Some [(''resolution'', resolution)]) None)
            # snd (receive (replies w retry_count)))"
  using assms
  by (subst upscale_request.simps) (simp add: make_luma_request_Some send_request_def)

lemma upscale_request_same_resolution:
  assumes "credential w api_key = Some k"
    and "fst (receive (replies w retry_count)) = Inl (ValueError m)"
    and "sublist ''same resolution as the original'' m"
  shows "upscale_request w api_key generation_id resolution retry_count =
           (Inl (same_resolution_error resolution),
            Call (build_request ''POST'' (''generations/'' @ py_str generation_id @ ''/upscale'')
                    k (Some [(''resolution'', resolution)]) None)
            # snd (receive (replies w retry_count)))"
  using assms
  by (subst upscale_request.simps) (simp add: make_luma_request_Some send_request_def)

lemma upscale_request_retry:
  assumes "credential w api_key = Some k"
    and "fst (receive (replies w retry_count)) = Inl (ValueError m)"
    and "\<not> sublist ''same resolution as the original'' m"
    and "sublist ''HTTP error 500'' m"
    and "retry_count < max_retries"
  shows "upscale_request w api_key generation_id resolution retry_count =
           (fst (upscale_request w api_key generation_id resolution (retry_count + 1)),
            (Call (build_request ''POST'' (''generations/'' @ py_str generation_id @ ''/upscale'')
                     k (Some [(''resolution'', resolution)]) None)
             # snd (receive (replies w retry_count)))
            @ [retry_warning (retry_count + 1), Sleep 2]
            @ snd (upscale_request w api_key generation_id resolution (retry_count + 1)))"
  using assms
  by (subst upscale_request.simps)
    (simp add: make_luma_request_Some send_request_def split: prod.split)

lemma http_error_500: "sublist ''HTTP error 500'' (http_error 500 json_data)"
proof -
  have "http_error 500 json_data
        = [] @ ''HTTP error 500'' @ (if truthy json_data then '': '' @ py_str json_data else [])"
    by (simp add: http_error_def str_int_def str_nat.simps digit_def)
  then show ?thesis
    using sublist_in_append by metis
qed

lemma receive_http_error:
  assumes "status_code r \<ge> 400" and "content r \<noteq> []"
  shows "fst (receive (Responded r))
           = Inl (ValueError (http_error (status_code r) (fst (decode_body r))))"
  using assms by (cases "decode_body r") (simp add: read_response_def)

lemma same_resolution_error_plain:
  assumes "resolution \<in> JStr ` set valid_resolutions"
  shows "upscale_error parameters (exn_str (same_resolution_error resolution))
           = (''Error upscaling generation ''
                @ py_str (dict_get parameters ''generation_id'' JNull) @ '': ''
                @ exn_str (same_resolution_error resolution),
              [Log Error (''Error in upscale_generation: ''
                          @ exn_str (same_resolution_error resolution))])"
proof -
  have "\<not> sublist ''same resolution as the original'' (exn_str (same_resolution_error resolution))
        \<and> \<not> sublist ''HTTP error 400'' (exn_str (same_resolution_error resolution))
        \<and> \<not> sublist ''HTTP error 500'' (exn_str (same_resolution_error resolution))"
    using assms
    by (auto simp add: valid_resolutions_def same_resolution_error_def sublist_Cons_right)
  then show ?thesis
    by (simp add: upscale_error_plain)
qed

lemma upscale_generation_returned:
  assumes "truthy (dict_get parameters ''generation_id'' JNull)"
    and "dict_get parameters ''resolution'' JNull \<in> JStr ` set valid_resolutions"
    and "upscale_request w api_key (dict_get parameters ''generation_id'' JNull)
           (dict_get parameters ''resolution'' JNull) 0 = (Inr result, evs)"
  shows "upscale_generation w parameters api_key =
           (fst (render_upscale (dict_get parameters ''generation_id'' JNull)
                   (dict_get parameters ''resolution'' JNull) result),
            evs @ snd (render_upscale (dict_get parameters ''generation_id'' JNull)
                         (dict_get parameters ''resolution'' JNull) result))"
proof -
  have "truthy (dict_get parameters ''resolution'' JNull)"
    using assms(2) by (auto simp add: valid_resolutions_def)
  then show ?thesis
    using assms by (simp add: upscale_generation_def upscale_generation_body_def Let_def)
qed

lemma upscale_generation_raised:
  assumes "truthy (dict_get parameters ''generation_id'' JNull)"
    and "dict_get parameters ''resolution'' JNull \<in> JStr ` set valid_resolutions"
    and "upscale_request w api_key (dict_get parameters ''generation_id'' JNull)
           (dict_get parameters ''resolution'' JNull) 0 = (Inl e, evs)"
  shows "upscale_generation w parameters api_key =
           (fst (upscale_error parameters (exn_str e)),
            evs @ snd (upscale_error parameters (exn_str e)))"
proof -
  have "truthy (dict_get parameters ''resolution'' JNull)"
    using assms(2) by (auto simp add: valid_resolutions_def)
  then show ?thesis
    using assms by (simp add: upscale_generation_def upscale_generation_body_def Let_def)
qed







section \<open>Every failure ends as a text\<close>

text \<open>
  A status of 400 or more without a body is not a failure for the gateway: it returns
  the empty object, and the handler renders it.
\<close>

lemma error_status_without_body:
  "fst (receive (empty_reply 500)) = Inr (JObj [])"
  "fst (ping (test_world (\<lambda>n. empty_reply 500)) [] None)
     = ''Luma API is available and responding''"
  by (simp_all add: ping_def ping_body_def gateway_defs)




section \<open>upscale_generation: retries and the resolution conflict\<close>

text \<open>
  What the loop does with replies that the gateway does report as errors. Take a call
  of \<open>upscale_generation\<close> with a generation id, one of the four resolutions, and a
  credential.
  \<^item> If the first two replies have status 500 and a body, their error text
    (\<^verbatim>\<open>HTTP error 500: <body>\<close>) does not contain \<^verbatim>\<open>same resolution as the original\<close>,
    and the gateway returns the third reply, then the requests and pauses of the call
    are: the request, a pause of 2 seconds, the request, a pause of 2 seconds, the
    request; and the text is the rendering of the third reply.
  \<^item> If the gateway raises an exception for the first reply and the text of the
    exception contains \<^verbatim>\<open>same resolution as the original\<close>, there is exactly one request
    and no pause, and the text says that the generation is already at the requested
    resolution (when the exception is the gateway's own error for a network fault or an
    HTTP status) or that the requested resolution is the same as the original (when it
    is any other exception).
\<close>

lemma retry_of_reported_errors:
  assumes "truthy (dict_get parameters ''generation_id'' JNull)"
    and "dict_get parameters ''resolution'' JNull \<in> JStr ` set valid_resolutions"
    and "credential w api_key = Some k"
  shows "(replies w 0 = Responded r0 \<and> status_code r0 = 500 \<and> content r0 \<noteq> []
            \<and> \<not> sublist ''same resolution as the original''
                  (http_error 500 (fst (decode_body r0)))
            \<and> replies w 1 = Responded r1 \<and> status_code r1 = 500 \<and> content r1 \<noteq> []
            \<and> \<not> sublist ''same resolution as the original''
                  (http_error 500 (fst (decode_body r1)))
            \<and> fst (receive (replies w 2)) = Inr result \<longrightarrow>
          timeline (snd (upscale_generation w parameters api_key))
            = [Call (build_request ''POST''
                       (''generations/'' @ py_str (dict_get parameters ''generation_id'' JNull)
                        @ ''/upscale'')
                       k (Some [(''resolution'', dict_get parameters ''resolution'' JNull)]) None),
               Sleep 2,
               Call (build_request ''POST''
                       (''generations/'' @ py_str (dict_get parameters ''generation_id'' JNull)
                        @ ''/upscale'')
                       k (Some [(''resolution'', dict_get parameters ''resolution'' JNull)]) None),
               Sleep 2,
               Call (build_request ''POST''
                       (''generations/'' @ py_str (dict_get parameters ''generation_id'' JNull)
                        @ ''/upscale'')
                       k (Some [(''resolution'', dict_get parameters ''resolution'' JNull)]) None)]
          \<and> fst (upscale_generation w parameters api_key)
              = fst (render_upscale (dict_get parameters ''generation_id'' JNull)
                       (dict_get parameters ''resolution'' JNull) result))
       \<and> (fst (receive (replies w 0)) = Inl e
            \<and> sublist ''same resolution as the original'' (exn_str e) \<longrightarrow>
          timeline (snd (upscale_generation w parameters api_key))
            = [Call (build_request ''POST''
                       (''generations/'' @ py_str (dict_get parameters ''generation_id'' JNull)
                        @ ''/upscale'')
                       k (Some [(''resolution'', dict_get parameters ''resolution'' JNull)]) None)]
          \<and> fst (upscale_generation w parameters api_key)
              = ''Error upscaling generation ''
                @ py_str (dict_get parameters ''generation_id'' JNull) @ '': ''
                @ (case e of
                     ValueError m \<Rightarrow>
                       ''Cannot upscale to '' @ py_str (dict_get parameters ''resolution'' JNull)
                       @ '' because the original generation is already at this resolution. ''
                       @ ''Please choose a higher resolution.''
                   | OtherError m \<Rightarrow>
                       ''The requested resolution (''
                       @ py_str (dict_get parameters ''resolution'' JNull)
                       @ '') is the same as the original. Please choose a higher resolution.''))"
proof -
  let ?gid = "dict_get parameters ''generation_id'' JNull"
  let ?res = "dict_get parameters ''resolution'' JNull"
  let ?req = "build_request ''POST'' (''generations/'' @ py_str ?gid @ ''/upscale'')
                k (Some [(''resolution'', ?res)]) None"
  have 1: "timeline (snd (upscale_generation w parameters api_key))
             = [Call ?req, Sleep 2, Call ?req, Sleep 2, Call ?req]
           \<and> fst (upscale_generation w parameters api_key) = fst (render_upscale ?gid ?res result)"
    if a: "replies w 0 = Responded r0" "status_code r0 = 500" "content r0 \<noteq> []"
      "\<not> sublist ''same resolution as the original'' (http_error 500 (fst (decode_body r0)))"
      "replies w 1 = Responded r1" "status_code r1 = 500" "content r1 \<noteq> []"
      "\<not> sublist ''same resolution as the original'' (http_error 500 (fst (decode_body r1)))"
      "fst (receive (replies w 2)) = Inr result"
  proof -
    have e0: "fst (receive (replies w 0))
              = Inl (ValueError (http_error 500 (fst (decode_body r0))))"
      using receive_http_error [of r0] a(1-3) by simp
    have e1: "fst (receive (replies w (0 + 1)))
              = Inl (ValueError (http_error 500 (fst (decode_body r1))))"
      using receive_http_error [of r1] a(5-7) by simp
    have e2: "fst (receive (replies w (0 + 1 + 1))) = Inr result"
      using a(9) by (simp add: numeral_2_eq_2)
    have u2: "upscale_request w api_key ?gid ?res (0 + 1 + 1)
              = (Inr result, Call ?req # snd (receive (replies w (0 + 1 + 1))))"
      by (rule upscale_request_done [OF assms(3) e2])
    have u1: "upscale_request w api_key ?gid ?res (0 + 1)
              = (fst (upscale_request w api_key ?gid ?res (0 + 1 + 1)),
                 (Call ?req # snd (receive (replies w (0 + 1))))
                 @ [retry_warning (0 + 1 + 1), Sleep 2]
                 @ snd (upscale_request w api_key ?gid ?res (0 + 1 + 1)))"
      by (rule upscale_request_retry [OF assms(3) e1 a(8) http_error_500])
        (simp add: max_retries_def)
    have u0: "upscale_request w api_key ?gid ?res 0
              = (fst (upscale_request w api_key ?gid ?res (0 + 1)),
                 (Call ?req # snd (receive (replies w 0)))
                 @ [retry_warning (0 + 1), Sleep 2]
                 @ snd (upscale_request w api_key ?gid ?res (0 + 1)))"
      by (rule upscale_request_retry [OF assms(3) e0 a(4) http_error_500])
        (simp add: max_retries_def)
    obtain evs where u: "upscale_request w api_key ?gid ?res 0 = (Inr result, evs)"
      and t: "timeline evs = [Call ?req, Sleep 2, Call ?req, Sleep 2, Call ?req]"
      using u0 u1 u2
      by (simp add: timeline_append timeline_receive retry_warning_def)
    show ?thesis
      using t
      by (simp add: upscale_generation_returned [OF assms(1,2) u] timeline_append
          timeline_render_upscale)
  qed
  have 2: "timeline (snd (upscale_generation w parameters api_key)) = [Call ?req]
           \<and> fst (upscale_generation w parameters api_key)
              = ''Error upscaling generation '' @ py_str ?gid @ '': ''
                @ (case e of
                     ValueError m \<Rightarrow>
                       ''Cannot upscale to '' @ py_str ?res
                       @ '' because the original generation is already at this resolution. ''
                       @ ''Please choose a higher resolution.''
                   | OtherError m \<Rightarrow>
                       ''The requested resolution ('' @ py_str ?res
                       @ '') is the same as the original. Please choose a higher resolution.'')"
    if r: "fst (receive (replies w 0)) = Inl e"
      and s: "sublist ''same resolution as the original'' (exn_str e)"
  proof (cases e)
    case (ValueError m)
    have u: "upscale_request w api_key ?gid ?res 0
             = (Inl (same_resolution_error ?res), Call ?req # snd (receive (replies w 0)))"
      using upscale_request_same_resolution [OF assms(3), of 0 m] r s ValueError by simp
    show ?thesis
      using ValueError
      by (simp add: upscale_generation_raised [OF assms(1,2) u]
          same_resolution_error_plain [OF assms(2)] timeline_append timeline_receive)
        (simp add: same_resolution_error_def)
  next
    case (OtherError m)
    have u: "upscale_request w api_key ?gid ?res 0
             = (Inl (OtherError m), Call ?req # snd (receive (replies w 0)))"
      using upscale_request_other [OF assms(3), of 0 m] r OtherError by simp
    have "fst (upscale_error parameters m)
          = ''Error upscaling generation '' @ py_str ?gid @ '': ''
            @ ''The requested resolution ('' @ py_str ?res
            @ '') is the same as the original. Please choose a higher resolution.''"
      using s OtherError by (simp add: upscale_error_def)
    then show ?thesis
      using OtherError
      by (simp add: upscale_generation_raised [OF assms(1,2) u] timeline_append
          timeline_receive timeline_upscale_error)
  qed
  show ?thesis
    using 1 2 by blast
qed

text \<open>
  Claim C2. The first half of the claim fails on replies without a body. The gateway
  returns the empty object for a response without content before it looks at the
  status, so an HTTP 500 without a body is not an error for the handler: with two such
  replies followed by a success, \<open>upscale_generation\<close> sends one request, does not
  pause or retry, and returns the rendering of the empty object, not that of the third
  reply.
\<close>

theorem server_error_without_body_not_retried:
  "upscale_generation
     (test_world (\<lambda>n. if n < 2 then empty_reply 500 else json_reply 200 (JObj upscaled)))
     upscale_arguments None
   = (''Upscale initiated for generation g'' @ [nl] @ ''Target resolution: 1080p'' @ [nl]
      @ ''Status: Processing'' @ [nl] @ ''Created at: Unknown'' @ [nl] @ ''Model: Unknown'',
      [Call \<lparr> http_method = ''POST'',
               url = ''https://api.lumalabs.ai/dream-machine/v1/generations/g/upscale'',
               headers = [(''Authorization'', ''Bearer test-key''),
                          (''Content-Type'', ''application/json''),
                          (''Accept'', ''application/json'')],
               timeout_s = 30,
               json_body = Some [(''resolution'', JStr ''1080p'')],
               params = None \<rparr>])"
proof -
  let ?w = "test_world (\<lambda>n. if n < 2 then empty_reply 500 else json_reply 200 (JObj upscaled))"
  have g: "truthy (dict_get upscale_arguments ''generation_id'' JNull)"
    and v: "dict_get upscale_arguments ''resolution'' JNull \<in> JStr ` set valid_resolutions"
    by (simp_all add: upscale_arguments_def dict_get_def valid_resolutions_def)
  have r: "receive (replies ?w 0) = (Inr (JObj []), [])"
    by (simp add: test_world_def empty_reply_def read_response_def)
  then have r': "fst (receive (replies ?w 0)) = Inr (JObj [])"
    by simp
  have u: "upscale_request ?w None (dict_get upscale_arguments ''generation_id'' JNull)
             (dict_get upscale_arguments ''resolution'' JNull) 0
           = (Inr (JObj []),
              Call (build_request ''POST''
                      (''generations/''
                       @ py_str (dict_get upscale_arguments ''generation_id'' JNull) @ ''/upscale'')
                      ''test-key''
                      (Some [(''resolution'', dict_get upscale_arguments ''resolution'' JNull)])
                      None)
              # snd (receive (replies ?w 0)))"
    by (rule upscale_request_done [OF credential_test_world r'])
  show ?thesis
    unfolding upscale_generation_returned [OF g v u]
    using r
    by (simp add: upscale_arguments_def dict_get_def build_request_def base_url_def
        state_info_def video_asset_lines_def asset_line_def has_key_def)
qed

section \<open>create_generation: the text-to-video round trip\<close>

text \<open>
  Claim C3. With a credential, the call \<^verbatim>\<open>create_generation({prompt: "p", resolution:
  "720p"})\<close> sends exactly one request: a POST to \<^verbatim>\<open>generations\<close> under the base URL,
  with the bearer credential, whose JSON body is \<^verbatim>\<open>{prompt: "p", model: "ray-2",
  resolution: "720p"}\<close> and nothing else, and without query parameters. When the
  gateway decodes the reply to an object with \<^verbatim>\<open>id\<close> \<^verbatim>\<open>test-id\<close> and \<^verbatim>\<open>state\<close>
  \<^verbatim>\<open>pending\<close> whose \<^verbatim>\<open>generation_type\<close> is not \<^verbatim>\<open>image\<close>, the text starts with
  \<^verbatim>\<open>Created text-to-video generation with ID: test-id\<close>, its second line is
  \<^verbatim>\<open>State: pending\<close>, and so it contains both.
\<close>

theorem create_generation_round_trip:
  assumes "credential w api_key = Some k"
  shows "calls (snd (create_generation w
                  [(''prompt'', JStr ''p''), (''resolution'', JStr ''720p'')] api_key))
           = [\<lparr> http_method = ''POST'',
                 url = ''https://api.lumalabs.ai/dream-machine/v1/generations'',
                 headers = [(''Authorization'', ''Bearer '' @ k),
                            (''Content-Type'', ''application/json''),
                            (''Accept'', ''application/json'')],
                 timeout_s = 30,
                 json_body = Some [(''prompt'', JStr ''p''), (''model'', JStr ''ray-2''),
                                   (''resolution'', JStr ''720p'')],
                 params = None \<rparr>]
       \<and> (fst (receive (replies w 0)) = Inr (JObj result)
            \<and> map_of result ''id'' = Some (JStr ''test-id'')
            \<and> map_of result ''state'' = Some (JStr ''pending'')
            \<and> map_of result ''generation_type'' \<noteq> Some (JStr ''image'') \<longrightarrow>
           prefix (''Created text-to-video generation with ID: test-id'' @ [nl]
                   @ ''State: pending'' @ [nl])
             (fst (create_generation w
                     [(''prompt'', JStr ''p''), (''resolution'', JStr ''720p'')] api_key))
           \<and> sublist ''Created text-to-video generation with ID: test-id''
               (fst (create_generation w
                       [(''prompt'', JStr ''p''), (''resolution'', JStr ''720p'')] api_key))
           \<and> sublist ''State: pending''
               (fst (create_generation w
                       [(''prompt'', JStr ''p''), (''resolution'', JStr ''720p'')] api_key)))"
proof -
  let ?ps = "[(''prompt'', JStr ''p''), (''resolution'', JStr ''720p'')]"
  have p: "truthy (dict_get ?ps ''prompt'' JNull)"
    by (simp add: dict_get_def)
  have kf: "check_keyframes ?ps = Inr []"
    by (simp add: check_keyframes_def has_keyframes_def has_key_def)
  have d: "create_data ?ps = [(''prompt'', JStr ''p''), (''model'', JStr ''ray-2''),
                              (''resolution'', JStr ''720p'')]"
    by (simp add: create_data_def has_keyframes_def has_key_def dict_get_def optional_params_def
        present_def)
  have 1: "calls (snd (create_generation w ?ps api_key))
           = [\<lparr> http_method = ''POST'',
                 url = ''https://api.lumalabs.ai/dream-machine/v1/generations'',
                 headers = [(''Authorization'', ''Bearer '' @ k),
                            (''Content-Type'', ''application/json''),
                            (''Accept'', ''application/json'')],
                 timeout_s = 30,
                 json_body = Some [(''prompt'', JStr ''p''), (''model'', JStr ''ray-2''),
                                   (''resolution'', JStr ''720p'')],
                 params = None \<rparr>]"
    using create_generation_calls [OF p kf assms] d by (simp add: build_request_def base_url_def)
  have 2: "fst (create_generation w ?ps api_key)
           = ''Created text-to-video generation with ID: test-id'' @ [nl]
             @ ''State: pending'' @ [nl]
             @ ''Created at: '' @ py_str (dict_get result ''created_at'' (JStr ''Unknown'')) @ [nl]
             @ ''Model: '' @ py_str (dict_get result ''model'' (JStr ''ray-2'')) @ [nl]
             @ ''Prompt: p''"
    if r: "fst (receive (replies w 0)) = Inr (JObj result)"
      and i: "map_of result ''id'' = Some (JStr ''test-id'')"
      and s: "map_of result ''state'' = Some (JStr ''pending'')"
      and g: "map_of result ''generation_type'' \<noteq> Some (JStr ''image'')"
  proof -
    have t: "dict_get result ''generation_type'' (JStr ''video'') \<noteq> JStr ''image''"
      using g by (auto simp add: dict_get_def split: option.split)
    have "fst (create_generation_body w ?ps api_key)
          = fst (render_created ?ps (create_data ?ps) (JObj result))"
      by (rule create_generation_replied [OF p kf assms r])
    then show ?thesis
      using t i s d
      by (simp add: create_generation_def fst_try_except_Inr created_details_def dict_get_def
          has_keyframes_def has_key_def)
  qed
  have 3: "sublist ''State: pending''
             (''Created text-to-video generation with ID: test-id'' @ [nl]
              @ ''State: pending'' @ rest)" for rest
    using sublist_in_append [of "''State: pending''"
        "''Created text-to-video generation with ID: test-id'' @ [nl]" rest]
    by simp
  show ?thesis
    using 1 2 3 by (auto simp add: sublist_append)
qed

theorem create_generation_round_trip_witness:
  "credential (test_world (\<lambda>n. json_reply 200
       (JObj [(''id'', JStr ''test-id''), (''state'', JStr ''pending''),
              (''created_at'', JStr ''2024-03-20T12:00:00Z'')]))) None = Some ''test-key''
   \<and> fst (create_generation (test_world (\<lambda>n. json_reply 200
       (JObj [(''id'', JStr ''test-id''), (''state'', JStr ''pending''),
              (''created_at'', JStr ''2024-03-20T12:00:00Z'')])))
         [(''prompt'', JStr ''p''), (''resolution'', JStr ''720p'')] None)
     = ''Created text-to-video generation with ID: test-id'' @ [nl] @ ''State: pending'' @ [nl]
       @ ''Created at: 2024-03-20T12:00:00Z'' @ [nl] @ ''Model: ray-2'' @ [nl] @ ''Prompt: p''
   \<and> sublist ''State: pending''
       (fst (create_generation (test_world (\<lambda>n. json_reply 200
          (JObj [(''id'', JStr ''test-id''), (''state'', JStr ''pending''),
                 (''created_at'', JStr ''2024-03-20T12:00:00Z'')])))
            [(''prompt'', JStr ''p''), (''resolution'', JStr ''720p'')] None))
   \<and> calls (snd (create_generation (test_world (\<lambda>n. json_reply 200
          (JObj [(''id'', JStr ''test-id''), (''state'', JStr ''pending''),
                 (''created_at'', JStr ''2024-03-20T12:00:00Z'')])))
            [(''prompt'', JStr ''p''), (''resolution'', JStr ''720p'')] None))
       = [\<lparr> http_method = ''POST'',
             url = ''https://api.lumalabs.ai/dream-machine/v1/generations'',
             headers = [(''Authorization'', ''Bearer test-key''),
                        (''Content-Type'', ''application/json''),
                        (''Accept'', ''application/json'')],
             timeout_s = 30,
             json_body = Some [(''prompt'', JStr ''p''), (''model'', JStr ''ray-2''),
                               (''resolution'', JStr ''720p'')],
             params = None \<rparr>]"
proof -
  let ?result = "[(''id'', JStr ''test-id''), (''state'', JStr ''pending''),
                  (''created_at'', JStr ''2024-03-20T12:00:00Z'')]"
  let ?w = "test_world (\<lambda>n. json_reply 200 (JObj ?result))"
  let ?ps = "[(''prompt'', JStr ''p''), (''resolution'', JStr ''720p'')]"
  have r: "fst (receive (replies ?w 0)) = Inr (JObj ?result)"
    by (simp add: test_world_def receive_json_reply)
  have p: "truthy (dict_get ?ps ''prompt'' JNull)"
    by (simp add: dict_get_def)
  have kf: "check_keyframes ?ps = Inr []"
    by (simp add: check_keyframes_def has_keyframes_def has_key_def)
  have t: "fst (create_generation ?w ?ps None)
     = ''Created text-to-video generation with ID: test-id'' @ [nl] @ ''State: pending'' @ [nl]
       @ ''Created at: 2024-03-20T12:00:00Z'' @ [nl] @ ''Model: ray-2'' @ [nl] @ ''Prompt: p''"
    using create_generation_replied [OF p kf credential_test_world r]
    by (simp add: create_generation_def fst_try_except_Inr created_details_def dict_get_def
        has_keyframes_def has_key_def create_data_def optional_params_def present_def)
  show ?thesis
    using create_generation_round_trip [OF credential_test_world,
        of "\<lambda>n. json_reply 200 (JObj ?result)" ?result] r t
    by (simp add: credential_test_world)
qed

section \<open>upscale_generation: an invalid resolution that looks like an upstream error\<close>

text \<open>
  Claim C4. A missing required argument and an invalid resolution are rejected before
  any request (see the facts on required arguments above). The text for an invalid resolution is \<^verbatim>\<open>Invalid resolution: <value>. Must be one of
  540p, 720p, 1080p, 4k\<close>, which contains the value; the \<^verbatim>\<open>except\<close> clause of
  \<open>upscale_generation\<close> then looks into this text for the phrases it expects from the
  gateway. For the resolution \<^verbatim>\<open>HTTP error 500\<close> the handler sends no request, as the
  claim says, but the text it returns reports a server error and does not mention the
  resolution.
\<close>

theorem invalid_resolution_reported_as_server_error:
  "upscale_generation w [(''generation_id'', JStr ''g''), (''resolution'', JStr ''HTTP error 500'')]
     api_key
   = (''Error upscaling generation g: Server Error. This could be due to:'' @ [nl]
      @ ''- The generation not being in a completed state'' @ [nl]
      @ ''- The generation already being upscaled'' @ [nl]
      @ ''- The Luma API experiencing temporary issues'' @ [nl, nl]
      @ ''Please check the generation status and try again later.'',
      [Log Error (''Server error in upscale_generation: Invalid resolution: HTTP error 500. ''
                  @ ''Must be one of 540p, 720p, 1080p, 4k'')])"
  by (simp add: upscale_generation_def upscale_generation_body_def upscale_error_def
      valid_resolutions_def dict_get_def sublist_Cons_right Let_def)

section \<open>list_generations: the shapes of the reply\<close>

lemma fst_summaries:
  "fst (summaries generations_list)
     = map generation_summary (map as_dict (filter is_dict generations_list))"
  by (induction generations_list rule: summaries.induct) simp_all

lemma first_list_field_empty: "first_list_field [] names = None"
  by (induction names) simp_all

lemma list_generations_replied:
  assumes "credential w api_key = Some k" and "fst (receive (replies w 0)) = Inr reply"
  shows "fst (list_generations w parameters api_key)
           = (if \<not> truthy reply then ''No generations found''
              else fst (render_generations reply))"
  using assms
  by (simp add: list_generations_def list_generations_body_def make_luma_request_Some
      send_request_def try_except_def)

lemma first_alternate_key:
  "first_list_field result [''data'', ''results'', ''items'']
     = (case dict_get result ''data'' JNull of
          JList xs \<Rightarrow> Some xs
        | _ \<Rightarrow> (case dict_get result ''results'' JNull of
                  JList xs \<Rightarrow> Some xs
                | _ \<Rightarrow> (case dict_get result ''items'' JNull of
                          JList xs \<Rightarrow> Some xs
                        | _ \<Rightarrow> None)))"
  by (simp add: dict_get_def split: option.split json.split)

text \<open>
  Claim C5 as stated fails: in the reply \<^verbatim>\<open>{data: [1], items: [{id: "a"}]}\<close> the list of
  generations is nested under the alternate key \<^verbatim>\<open>items\<close>, but the handler takes
  \<^verbatim>\<open>data\<close>, the first alternate key that holds a list, and does not look at the later
  keys: the text is the heading alone and the entry under \<^verbatim>\<open>items\<close> is not rendered.
\<close>

theorem alternate_key_counterexample:
  "fst (list_generations
          (test_world (\<lambda>n. json_reply 200
             (JObj [(''data'', JList [JInt 1]), (''items'', JList [JObj [(''id'', JStr ''a'')]])])))
          [] None)
     = ''Generations:''"
  by (simp add: list_generations_def list_generations_body_def render_list_def dict_get_def
      has_key_def gateway_defs)

text \<open>
  Claim C5, amended. With a credential and a first reply that the gateway returns,
  \<open>list_generations\<close> answers each of the following replies with the line
  \<^verbatim>\<open>Generations:\<close> followed by one summary per entry of the list named, in order, where
  the entries that are not objects are skipped; the lines are joined by newlines.
  \<^item> An object whose \<^verbatim>\<open>generations\<close> field is a non-empty list: that list. The line
    \<^verbatim>\<open>Showing <n> of <count> generations\<close>, with \<^verbatim>\<open>(more available)\<close> when \<^verbatim>\<open>has_more\<close>
    is truthy, comes before the summaries.
  \<^item> A non-empty list: that list.
  \<^item> An object whose \<^verbatim>\<open>generations\<close> field is not a list and that has the keys \<^verbatim>\<open>id\<close>
    and \<^verbatim>\<open>state\<close>: the object itself is the single entry.
  \<^item> An object whose \<^verbatim>\<open>generations\<close> field is not a list and that does not have both
    \<^verbatim>\<open>id\<close> and \<^verbatim>\<open>state\<close>: the non-empty list under \<^verbatim>\<open>data\<close>; or, when \<^verbatim>\<open>data\<close>
    holds no list, the non-empty list under \<^verbatim>\<open>results\<close>; or, when neither holds a
    list, the non-empty list under \<^verbatim>\<open>items\<close>. The keys after the first one that holds a
    list are not looked at.

  The summary of an entry is the same in all four cases: its ID, Type, State, Created
  at, Prompt and URL lines, each with its default, as the last part of the statement
  spells out.
\<close>

theorem list_generations_shapes:
  assumes "credential w api_key = Some k"
    and "fst (receive (replies w 0)) = Inr reply"
  shows "(reply = JObj result \<and> map_of result ''generations'' = Some (JList generations_list)
            \<and> generations_list \<noteq> [] \<longrightarrow>
          fst (list_generations w parameters api_key)
            = str_join [nl]
                ([''Generations:'',
                  ''Showing '' @ str_nat (length generations_list) @ '' of ''
                  @ py_str (dict_get result ''count'' (JInt (int (length generations_list))))
                  @ '' generations''
                  @ (if truthy (dict_get result ''has_more'' (JBool False))
                     then '' (more available)'' else [])]
                 @ map generation_summary (map as_dict (filter is_dict generations_list))))
       \<and> (reply = JList generations_list \<and> generations_list \<noteq> [] \<longrightarrow>
          fst (list_generations w parameters api_key)
            = str_join [nl]
                (''Generations:''
                 # map generation_summary (map as_dict (filter is_dict generations_list))))
       \<and> (reply = JObj result \<and> \<not> is_list (dict_get result ''generations'' JNull)
            \<and> map_of result ''id'' \<noteq> None \<and> map_of result ''state'' \<noteq> None \<longrightarrow>
          fst (list_generations w parameters api_key)
            = str_join [nl] [''Generations:'', generation_summary result])
       \<and> (reply = JObj result \<and> \<not> is_list (dict_get result ''generations'' JNull)
            \<and> (map_of result ''id'' = None \<or> map_of result ''state'' = None)
            \<and> generations_list \<noteq> []
            \<and> (map_of result ''data'' = Some (JList generations_list)
               \<or> \<not> is_list (dict_get result ''data'' JNull)
                 \<and> map_of result ''results'' = Some (JList generations_list)
               \<or> \<not> is_list (dict_get result ''data'' JNull)
                 \<and> \<not> is_list (dict_get result ''results'' JNull)
                 \<and> map_of result ''items'' = Some (JList generations_list)) \<longrightarrow>
          fst (list_generations w parameters api_key)
            = str_join [nl]
                (''Generations:''
                 # map generation_summary (map as_dict (filter is_dict generations_list))))
       \<and> generation_summary gen
          = ''ID: '' @ py_str (dict_get gen ''id'' (JStr ''Unknown ID'')) @ [nl]
            @ ''  Type: ''
            @ (if dict_get gen ''generation_type'' (JStr ''video'') = JStr ''image'' then ''Image''
               else if is_dict (dict_get (as_dict (dict_get gen ''request'' (JObj [])))
                                  ''keyframes'' JNull)
                       \<and> truthy (dict_get (as_dict (dict_get gen ''request'' (JObj [])))
                                   ''keyframes'' JNull)
               then ''Advanced'' else ''Text-to-video'') @ [nl]
            @ ''  State: '' @ py_str (dict_get gen ''state'' (JStr ''Unknown state'')) @ [nl]
            @ ''  Created at: '' @ py_str (dict_get gen ''created_at'' (JStr ''Unknown date''))
            @ [nl]
            @ ''  Prompt: ''
            @ py_str (dict_get (as_dict (dict_get gen ''request'' (JObj [])))
                        ''prompt'' (JStr ''Unknown prompt'')) @ [nl]
            @ (if dict_get gen ''generation_type'' (JStr ''video'') = JStr ''image''
               then ''  Image URL: ''
                    @ py_str (dict_get (as_dict (dict_get gen ''assets'' (JObj [])))
                                ''image'' (JStr ''Not available yet''))
               else ''  Video URL: ''
                    @ py_str (dict_get (as_dict (dict_get gen ''assets'' (JObj [])))
                                ''video'' (JStr ''Not available yet'')))
            @ [nl]"
proof -
  note t = list_generations_replied [OF assms, of parameters]
  have 1: "fst (list_generations w parameters api_key)
            = str_join [nl]
                ([''Generations:'',
                  ''Showing '' @ str_nat (length generations_list) @ '' of ''
                  @ py_str (dict_get result ''count'' (JInt (int (length generations_list))))
                  @ '' generations''
                  @ (if truthy (dict_get result ''has_more'' (JBool False))
                     then '' (more available)'' else [])]
                 @ map generation_summary (map as_dict (filter is_dict generations_list)))"
    if "reply = JObj result" "map_of result ''generations'' = Some (JList generations_list)"
      "generations_list \<noteq> []"
  proof -
    have "result \<noteq> []"
      using that(2) by auto
    then show ?thesis
      using t that
      by (simp add: dict_get_def [of result "''generations''"] render_list_def fst_summaries
          pagination_info_def)
  qed
  have 2: "fst (list_generations w parameters api_key)
            = str_join [nl]
                (''Generations:''
                 # map generation_summary (map as_dict (filter is_dict generations_list)))"
    if "reply = JList generations_list" "generations_list \<noteq> []"
    using t that by (simp add: render_list_def fst_summaries)
  have 3: "fst (list_generations w parameters api_key)
            = str_join [nl] [''Generations:'', generation_summary result]"
    if "reply = JObj result" "\<not> is_list (dict_get result ''generations'' JNull)"
      "map_of result ''id'' \<noteq> None" "map_of result ''state'' \<noteq> None"
  proof -
    have "result \<noteq> []"
      using that(3) by auto
    then show ?thesis
      using t that
      by (cases "dict_get result ''generations'' JNull")
        (simp_all add: render_list_def has_key_def)
  qed
  have 4: "fst (list_generations w parameters api_key)
            = str_join [nl]
                (''Generations:''
                 # map generation_summary (map as_dict (filter is_dict generations_list)))"
    if a: "reply = JObj result" "\<not> is_list (dict_get result ''generations'' JNull)"
      "map_of result ''id'' = None \<or> map_of result ''state'' = None"
      "generations_list \<noteq> []"
      and b: "map_of result ''data'' = Some (JList generations_list)
               \<or> \<not> is_list (dict_get result ''data'' JNull)
                 \<and> map_of result ''results'' = Some (JList generations_list)
               \<or> \<not> is_list (dict_get result ''data'' JNull)
                 \<and> \<not> is_list (dict_get result ''results'' JNull)
                 \<and> map_of result ''items'' = Some (JList generations_list)"
  proof -
    have f: "first_list_field result [''data'', ''results'', ''items''] = Some generations_list"
      unfolding first_alternate_key
      using b
      by (cases "dict_get result ''data'' JNull"; cases "dict_get result ''results'' JNull")
        (auto simp add: dict_get_def)
    have "result \<noteq> []"
      using b by auto
    then show ?thesis
      using t a f
      by (cases "dict_get result ''generations'' JNull")
        (auto simp add: render_list_def has_key_def fst_summaries)
  qed
  have 5: "generation_summary gen
          = ''ID: '' @ py_str (dict_get gen ''id'' (JStr ''Unknown ID'')) @ [nl]
            @ ''  Type: ''
            @ (if dict_get gen ''generation_type'' (JStr ''video'') = JStr ''image'' then ''Image''
               else if is_dict (dict_get (as_dict (dict_get gen ''request'' (JObj [])))
                                  ''keyframes'' JNull)
                       \<and> truthy (dict_get (as_dict (dict_get gen ''request'' (JObj [])))
                                   ''keyframes'' JNull)
               then ''Advanced'' else ''Text-to-video'') @ [nl]
            @ ''  State: '' @ py_str (dict_get gen ''state'' (JStr ''Unknown state'')) @ [nl]
            @ ''  Created at: '' @ py_str (dict_get gen ''created_at'' (JStr ''Unknown date''))
            @ [nl]
            @ ''  Prompt: ''
            @ py_str (dict_get (as_dict (dict_get gen ''request'' (JObj [])))
                        ''prompt'' (JStr ''Unknown prompt'')) @ [nl]
            @ (if dict_get gen ''generation_type'' (JStr ''video'') = JStr ''image''
               then ''  Image URL: ''
                    @ py_str (dict_get (as_dict (dict_get gen ''assets'' (JObj [])))
                                ''image'' (JStr ''Not available yet''))
               else ''  Video URL: ''
                    @ py_str (dict_get (as_dict (dict_get gen ''assets'' (JObj [])))
                                ''video'' (JStr ''Not available yet'')))
            @ [nl]"
    by (simp add: generation_summary_def type_display_def is_image_def Let_def)
  show ?thesis
  proof (intro conjI impI)
    assume "reply = JObj result \<and> map_of result ''generations'' = Some (JList generations_list)
            \<and> generations_list \<noteq> []"
    then show "fst (list_generations w parameters api_key)
            = str_join [nl]
                ([''Generations:'',
                  ''Showing '' @ str_nat (length generations_list) @ '' of ''
                  @ py_str (dict_get result ''count'' (JInt (int (length generations_list))))
                  @ '' generations''
                  @ (if truthy (dict_get result ''has_more'' (JBool False))
                     then '' (more available)'' else [])]
                 @ map generation_summary (map as_dict (filter is_dict generations_list)))"
      by (intro 1) simp_all
  next
    assume "reply = JList generations_list \<and> generations_list \<noteq> []"
    then show "fst (list_generations w parameters api_key)
            = str_join [nl]
                (''Generations:''
                 # map generation_summary (map as_dict (filter is_dict generations_list)))"
      by (intro 2) simp_all
  next
    assume "reply = JObj result \<and> \<not> is_list (dict_get result ''generations'' JNull)
            \<and> map_of result ''id'' \<noteq> None \<and> map_of result ''state'' \<noteq> None"
    then show "fst (list_generations w parameters api_key)
            = str_join [nl] [''Generations:'', generation_summary result]"
      by (intro 3) simp_all
  next
    assume "reply = JObj result \<and> \<not> is_list (dict_get result ''generations'' JNull)
            \<and> (map_of result ''id'' = None \<or> map_of result ''state'' = None)
            \<and> generations_list \<noteq> []
            \<and> (map_of result ''data'' = Some (JList generations_list)
               \<or> \<not> is_list (dict_get result ''data'' JNull)
                 \<and> map_of result ''results'' = Some (JList generations_list)
               \<or> \<not> is_list (dict_get result ''data'' JNull)
                 \<and> \<not> is_list (dict_get result ''results'' JNull)
                 \<and> map_of result ''items'' = Some (JList generations_list))"
    then show "fst (list_generations w parameters api_key)
            = str_join [nl]
                (''Generations:''
                 # map generation_summary (map as_dict (filter is_dict generations_list)))"
      by (intro 4) simp_all
  next
    show "generation_summary gen
          = ''ID: '' @ py_str (dict_get gen ''id'' (JStr ''Unknown ID'')) @ [nl]
            @ ''  Type: ''
            @ (if dict_get gen ''generation_type'' (JStr ''video'') = JStr ''image'' then ''Image''
               else if is_dict (dict_get (as_dict (dict_get gen ''request'' (JObj [])))
                                  ''keyframes'' JNull)
                       \<and> truthy (dict_get (as_dict (dict_get gen ''request'' (JObj [])))
                                   ''keyframes'' JNull)
               then ''Advanced'' else ''Text-to-video'') @ [nl]
            @ ''  State: '' @ py_str (dict_get gen ''state'' (JStr ''Unknown state'')) @ [nl]
            @ ''  Created at: '' @ py_str (dict_get gen ''created_at'' (JStr ''Unknown date''))
            @ [nl]
            @ ''  Prompt: ''
            @ py_str (dict_get (as_dict (dict_get gen ''request'' (JObj [])))
                        ''prompt'' (JStr ''Unknown prompt'')) @ [nl]
            @ (if dict_get gen ''generation_type'' (JStr ''video'') = JStr ''image''
               then ''  Image URL: ''
                    @ py_str (dict_get (as_dict (dict_get gen ''assets'' (JObj [])))
                                ''image'' (JStr ''Not available yet''))
               else ''  Video URL: ''
                    @ py_str (dict_get (as_dict (dict_get gen ''assets'' (JObj [])))
                                ''video'' (JStr ''Not available yet'')))
            @ [nl]"
      by (rule 5)
  qed
qed

theorem list_generations_shapes_witness:
  "credential (test_world (\<lambda>n. json_reply 200 (JList [JObj sample_generation, JInt 3]))) None
     = Some ''test-key''
   \<and> fst (list_generations
            (test_world (\<lambda>n. json_reply 200
               (JObj [(''generations'', JList [JObj sample_generation, JInt 3]),
                      (''has_more'', JBool True), (''count'', JInt 7)])))
            [] None)
       = str_join [nl] [''Generations:'', ''Showing 2 of 7 generations (more available)'',
                        generation_summary sample_generation]
   \<and> fst (list_generations
            (test_world (\<lambda>n. json_reply 200 (JList [JObj sample_generation, JInt 3]))) [] None)
       = str_join [nl] [''Generations:'', generation_summary sample_generation]
   \<and> fst (list_generations (test_world (\<lambda>n. json_reply 200 (JObj sample_generation))) [] None)
       = str_join [nl] [''Generations:'', generation_summary sample_generation]
   \<and> fst (list_generations
            (test_world (\<lambda>n. json_reply 200
               (JObj [(''results'', JList [JObj sample_generation, JInt 3]),
                      (''items'', JList [JObj [(''id'', JStr ''b'')]])])))
            [] None)
       = str_join [nl] [''Generations:'', generation_summary sample_generation]
   \<and> generation_summary sample_generation
       = ''ID: a'' @ [nl] @ ''  Type: Text-to-video'' @ [nl] @ ''  State: completed'' @ [nl]
         @ ''  Created at: Unknown date'' @ [nl] @ ''  Prompt: Unknown prompt'' @ [nl]
         @ ''  Video URL: https://example.com/video.mp4'' @ [nl]"
proof -
  let ?gs = "[JObj sample_generation, JInt 3]"
  let ?wrapped = "[(''generations'', JList ?gs), (''has_more'', JBool True), (''count'', JInt 7)]"
  let ?nested = "[(''results'', JList ?gs), (''items'', JList [JObj [(''id'', JStr ''b'')]])]"
  have r: "fst (receive (replies (test_world (\<lambda>n. json_reply 200 v)) 0)) = Inr v" for v
    by (simp add: test_world_def receive_json_reply)
  have e: "map generation_summary (map as_dict (filter is_dict ?gs))
           = [generation_summary sample_generation]"
    by simp
  have a: "fst (list_generations (test_world (\<lambda>n. json_reply 200 (JObj ?wrapped))) [] None)
           = str_join [nl] ([''Generations:'', ''Showing 2 of 7 generations (more available)'']
               @ map generation_summary (map as_dict (filter is_dict ?gs)))"
    using list_generations_shapes [OF credential_test_world r, of "JObj ?wrapped" ?wrapped ?gs "[]"]
    by (simp add: dict_get_def text_defs)
  have b: "fst (list_generations (test_world (\<lambda>n. json_reply 200 (JList ?gs))) [] None)
           = str_join [nl] (''Generations:''
               # map generation_summary (map as_dict (filter is_dict ?gs)))"
    using list_generations_shapes [OF credential_test_world r, of "JList ?gs" _ ?gs "[]"]
    by simp
  have c: "fst (list_generations (test_world (\<lambda>n. json_reply 200 (JObj sample_generation)))
                  [] None)
           = str_join [nl] [''Generations:'', generation_summary sample_generation]"
    using list_generations_shapes [OF credential_test_world r, of "JObj sample_generation"
        sample_generation _ "[]"]
    by (simp add: sample_generation_def dict_get_def)
  have d: "fst (list_generations (test_world (\<lambda>n. json_reply 200 (JObj ?nested))) [] None)
           = str_join [nl] (''Generations:''
               # map generation_summary (map as_dict (filter is_dict ?gs)))"
    using list_generations_shapes [OF credential_test_world r, of "JObj ?nested" ?nested ?gs "[]"]
    by (simp add: dict_get_def)
  have s: "generation_summary sample_generation
       = ''ID: a'' @ [nl] @ ''  Type: Text-to-video'' @ [nl] @ ''  State: completed'' @ [nl]
         @ ''  Created at: Unknown date'' @ [nl] @ ''  Prompt: Unknown prompt'' @ [nl]
         @ ''  Video URL: https://example.com/video.mp4'' @ [nl]"
    using list_generations_shapes [OF credential_test_world r, of "JList ?gs" _ _ _
        sample_generation]
    by (simp add: sample_generation_def dict_get_def)
  show ?thesis
    using a b c d e s credential_test_world by simp
qed

section \<open>create_generation: what the keyframes are called\<close>

lemma keyframe_info_frame0_image_only:
  assumes "map_of keyframes ''frame0'' = Some (JObj frame0)"
    and "map_of frame0 ''type'' = Some (JStr ''image'')"
    and "map_of keyframes ''frame1'' = None"
  shows "keyframe_info keyframes = Inr [''starting from an image'']"
  using assms
  by (simp add: keyframe_info_def frame0_info_def frame1_info_def has_key_def dict_get_def)

lemma keyframe_info_frame1_generation_only:
  assumes "map_of keyframes ''frame0'' = None"
    and "map_of keyframes ''frame1'' = Some (JObj frame1)"
    and "map_of frame1 ''type'' = Some (JStr ''generation'')"
  shows "keyframe_info keyframes = Inr [''reverse extending to an existing video'']"
  using assms
  by (simp add: keyframe_info_def frame0_info_def frame1_info_def has_key_def dict_get_def)

lemma keyframe_info_both:
  assumes "map_of keyframes ''frame0'' = Some (JObj frame0)"
    and "map_of keyframes ''frame1'' = Some (JObj frame1)"
    and "map_of frame1 ''type'' = Some (JStr ''generation'')"
  shows "keyframe_info keyframes =
           Inr ((if dict_get frame0 ''type'' JNull = JStr ''image''
                 then [''starting from an image'']
                 else if dict_get frame0 ''type'' JNull = JStr ''generation''
                 then [''extending an existing video'']
                 else [])
                @ [''interpolating between videos''])"
  using assms
  by (simp add: keyframe_info_def frame0_info_def frame1_info_def has_key_def dict_get_def)

lemma str_join_snoc: "\<exists>before. str_join sep (xs @ [x]) = before @ x"
proof (induction xs)
  case Nil
  then show ?case by simp
next
  case (Cons y ys)
  then obtain b where "str_join sep (ys @ [x]) = b @ x" by blast
  then have "str_join sep ((y # ys) @ [x]) = (y @ sep @ b) @ x"
    by (cases ys) simp_all
  then show ?case by blast
qed

text \<open>
  Claim C6. Take a call of \<open>create_generation\<close> with a prompt, a credential and a
  \<^verbatim>\<open>keyframes\<close> object, answered by a reply that the gateway decodes to an object whose
  \<^verbatim>\<open>generation_type\<close> is not \<^verbatim>\<open>image\<close>, so that the text is the rendering of a
  generation with keyframes.
  \<^item> With \<^verbatim>\<open>frame0\<close> of type \<^verbatim>\<open>image\<close> and no \<^verbatim>\<open>frame1\<close> the text contains
    \<^verbatim>\<open>starting from an image\<close>.
  \<^item> With \<^verbatim>\<open>frame0\<close> present and \<^verbatim>\<open>frame1\<close> of type \<^verbatim>\<open>generation\<close> the text contains
    \<^verbatim>\<open>interpolating between videos\<close>.
  \<^item> With no \<^verbatim>\<open>frame0\<close> and \<^verbatim>\<open>frame1\<close> of type \<^verbatim>\<open>generation\<close> the text contains
    \<^verbatim>\<open>reverse extending\<close>.
  \<^item> Whenever the frames that are present are objects, the text is
    \<^verbatim>\<open>Created advanced generation (<description>)\<close> followed by the details, and the
    description contains \<^verbatim>\<open>interpolating between videos\<close> only if both \<^verbatim>\<open>frame0\<close> and
    \<^verbatim>\<open>frame1\<close> are keys of the keyframes object.
\<close>

theorem keyframe_classification:
  assumes "truthy (dict_get parameters ''prompt'' JNull)"
    and "map_of parameters ''keyframes'' = Some (JObj keyframes)"
    and "credential w api_key = Some k"
    and "fst (receive (replies w 0)) = Inr (JObj result)"
    and "map_of result ''generation_type'' \<noteq> Some (JStr ''image'')"
  shows "(map_of keyframes ''frame0'' = Some (JObj frame0)
            \<and> map_of frame0 ''type'' = Some (JStr ''image'')
            \<and> map_of keyframes ''frame1'' = None \<longrightarrow>
          sublist ''starting from an image'' (fst (create_generation w parameters api_key)))
       \<and> (map_of keyframes ''frame0'' = Some (JObj frame0)
            \<and> map_of keyframes ''frame1'' = Some (JObj frame1)
            \<and> map_of frame1 ''type'' = Some (JStr ''generation'') \<longrightarrow>
          sublist ''interpolating between videos'' (fst (create_generation w parameters api_key)))
       \<and> (map_of keyframes ''frame0'' = None
            \<and> map_of keyframes ''frame1'' = Some (JObj frame1)
            \<and> map_of frame1 ''type'' = Some (JStr ''generation'') \<longrightarrow>
          sublist ''reverse extending'' (fst (create_generation w parameters api_key)))
       \<and> ((map_of keyframes ''frame0'' \<noteq> None \<or> map_of keyframes ''frame1'' \<noteq> None)
            \<and> keyframe_info keyframes = Inr info \<longrightarrow>
          fst (create_generation w parameters api_key)
            = ''Created advanced generation ('' @ str_join '', '' info @ '')''
              @ created_details parameters result
          \<and> (sublist ''interpolating between videos'' (str_join '', '' info) \<longrightarrow>
               map_of keyframes ''frame0'' \<noteq> None \<and> map_of keyframes ''frame1'' \<noteq> None))"
proof -
  have adv: "fst (create_generation w parameters api_key)
               = ''Created advanced generation ('' @ str_join '', '' i @ '')''
                 @ created_details parameters result"
    if "has_key keyframes ''frame0'' \<or> has_key keyframes ''frame1''"
      and "keyframe_info keyframes = Inr i" for i
    by (rule create_generation_advanced [OF assms(1,2) that assms(3-5)])
  have 1: "sublist ''starting from an image'' (fst (create_generation w parameters api_key))"
    if a: "map_of keyframes ''frame0'' = Some (JObj frame0)"
      "map_of frame0 ''type'' = Some (JStr ''image'')" "map_of keyframes ''frame1'' = None"
  proof -
    have "fst (create_generation w parameters api_key)
            = ''Created advanced generation ('' @ ''starting from an image''
              @ ('')'' @ created_details parameters result)"
      using adv [OF _ keyframe_info_frame0_image_only [OF a]] a(1) by (simp add: has_key_def)
    then show ?thesis
      using sublist_in_append by metis
  qed
  have 2: "sublist ''interpolating between videos'' (fst (create_generation w parameters api_key))"
    if a: "map_of keyframes ''frame0'' = Some (JObj frame0)"
      "map_of keyframes ''frame1'' = Some (JObj frame1)"
      "map_of frame1 ''type'' = Some (JStr ''generation'')"
  proof -
    let ?i0 = "if dict_get frame0 ''type'' JNull = JStr ''image''
               then [''starting from an image'']
               else if dict_get frame0 ''type'' JNull = JStr ''generation''
               then [''extending an existing video'']
               else []"
    obtain b where b: "str_join '', '' (?i0 @ [''interpolating between videos''])
                       = b @ ''interpolating between videos''"
      using str_join_snoc by blast
    have "fst (create_generation w parameters api_key)
            = ''Created advanced generation ('' @ str_join '', '' (?i0 @ [''interpolating between videos''])
              @ '')'' @ created_details parameters result"
      using adv [OF _ keyframe_info_both [OF a]] a(1) by (simp add: has_key_def)
    then have "fst (create_generation w parameters api_key)
            = (''Created advanced generation ('' @ b) @ ''interpolating between videos''
              @ ('')'' @ created_details parameters result)"
      using b by simp
    then show ?thesis
      using sublist_in_append by metis
  qed
  have 3: "sublist ''reverse extending'' (fst (create_generation w parameters api_key))"
    if a: "map_of keyframes ''frame0'' = None"
      "map_of keyframes ''frame1'' = Some (JObj frame1)"
      "map_of frame1 ''type'' = Some (JStr ''generation'')"
  proof -
    have "fst (create_generation w parameters api_key)
            = ''Created advanced generation ('' @ ''reverse extending''
              @ ('' to an existing video)'' @ created_details parameters result)"
      using adv [OF _ keyframe_info_frame1_generation_only [OF a]] a(2) by (simp add: has_key_def)
    then show ?thesis
      using sublist_in_append by metis
  qed
  have 4: "fst (create_generation w parameters api_key)
            = ''Created advanced generation ('' @ str_join '', '' info @ '')''
              @ created_details parameters result
          \<and> (sublist ''interpolating between videos'' (str_join '', '' info) \<longrightarrow>
               map_of keyframes ''frame0'' \<noteq> None \<and> map_of keyframes ''frame1'' \<noteq> None)"
    if a: "map_of keyframes ''frame0'' \<noteq> None \<or> map_of keyframes ''frame1'' \<noteq> None"
      and i: "keyframe_info keyframes = Inr info"
    using adv [OF _ i] a interpolating_needs_both [OF i] by (simp add: has_key_def)
  show ?thesis
    using 1 2 3 4 by blast
qed

theorem keyframe_classification_witness:
  "truthy (dict_get (with_keyframes [(''frame0'', JObj image_frame)]) ''prompt'' JNull)
   \<and> credential (test_world (\<lambda>n. pending_reply)) None = Some ''test-key''
   \<and> fst (receive (replies (test_world (\<lambda>n. pending_reply)) 0))
       = Inr (JObj [(''id'', JStr ''test-id''), (''state'', JStr ''pending'')])
   \<and> sublist ''starting from an image''
        (fst (create_generation (test_world (\<lambda>n. pending_reply))
                (with_keyframes [(''frame0'', JObj image_frame)]) None))
   \<and> sublist ''interpolating between videos''
        (fst (create_generation (test_world (\<lambda>n. pending_reply))
                (with_keyframes [(''frame0'', JObj image_frame),
                                 (''frame1'', JObj generation_frame)]) None))
   \<and> sublist ''reverse extending''
        (fst (create_generation (test_world (\<lambda>n. pending_reply))
                (with_keyframes [(''frame1'', JObj generation_frame)]) None))
   \<and> fst (create_generation (test_world (\<lambda>n. pending_reply))
                (with_keyframes [(''frame0'', JObj image_frame),
                                 (''frame1'', JObj generation_frame)]) None)
       = ''Created advanced generation (starting from an image, interpolating between videos)''
         @ '' with ID: test-id'' @ [nl] @ ''State: pending'' @ [nl] @ ''Created at: Unknown''
         @ [nl] @ ''Model: ray-2'' @ [nl] @ ''Prompt: p''"
proof -
  let ?w = "test_world (\<lambda>n. pending_reply)"
  let ?result = "[(''id'', JStr ''test-id''), (''state'', JStr ''pending'')]"
  let ?both = "[(''frame0'', JObj image_frame), (''frame1'', JObj generation_frame)]"
  have p: "truthy (dict_get (with_keyframes kf) ''prompt'' JNull)" for kf
    by (simp add: with_keyframes_def dict_get_def)
  have m: "map_of (with_keyframes kf) ''keyframes'' = Some (JObj kf)" for kf
    by (simp add: with_keyframes_def)
  have r: "fst (receive (replies ?w 0)) = Inr (JObj ?result)"
    by (simp add: test_world_def pending_reply_def receive_json_reply)
  have g: "map_of ?result ''generation_type'' \<noteq> Some (JStr ''image'')"
    by simp
  have ti: "map_of image_frame ''type'' = Some (JStr ''image'')"
    by (simp add: image_frame_def)
  have tg: "map_of generation_frame ''type'' = Some (JStr ''generation'')"
    by (simp add: generation_frame_def)
  have i: "keyframe_info ?both
           = Inr [''starting from an image'', ''interpolating between videos'']"
    using ti tg
    by (simp add: keyframe_info_def frame0_info_def frame1_info_def has_key_def dict_get_def)
  have f0: "map_of ?both ''frame0'' = Some (JObj image_frame)"
    and f1: "map_of ?both ''frame1'' = Some (JObj generation_frame)"
    and g0: "map_of [(''frame0'', JObj image_frame)] ''frame0'' = Some (JObj image_frame)"
    and g1: "map_of [(''frame0'', JObj image_frame)] ''frame1'' = None"
    and h0: "map_of [(''frame1'', JObj generation_frame)] ''frame0'' = None"
    and h1: "map_of [(''frame1'', JObj generation_frame)] ''frame1'' = Some (JObj generation_frame)"
    by simp_all
  have a: "sublist ''starting from an image''
             (fst (create_generation ?w (with_keyframes [(''frame0'', JObj image_frame)]) None))"
    using keyframe_classification [OF p m credential_test_world r g,
        of "[(''frame0'', JObj image_frame)]" image_frame] ti g0 g1
    by blast
  have b: "sublist ''interpolating between videos''
             (fst (create_generation ?w (with_keyframes ?both) None))
         \<and> fst (create_generation ?w (with_keyframes ?both) None)
           = ''Created advanced generation (''
             @ str_join '', '' [''starting from an image'', ''interpolating between videos'']
             @ '')'' @ created_details (with_keyframes ?both) ?result"
    using keyframe_classification [OF p m credential_test_world r g,
        of ?both image_frame generation_frame
           "[''starting from an image'', ''interpolating between videos'']"] tg i f0 f1
    by blast
  have c: "sublist ''reverse extending''
             (fst (create_generation ?w (with_keyframes [(''frame1'', JObj generation_frame)]) None))"
    using keyframe_classification [OF p m credential_test_world r g,
        of "[(''frame1'', JObj generation_frame)]" _ generation_frame] tg h0 h1
    by blast
  have d: "created_details (with_keyframes kf) ?result
           = '' with ID: test-id'' @ [nl] @ ''State: pending'' @ [nl] @ ''Created at: Unknown''
             @ [nl] @ ''Model: ray-2'' @ [nl] @ ''Prompt: p''" for kf
    by (simp add: created_details_def dict_get_def with_keyframes_def)
  have e: "fst (create_generation ?w (with_keyframes ?both) None)
       = ''Created advanced generation (starting from an image, interpolating between videos)''
         @ '' with ID: test-id'' @ [nl] @ ''State: pending'' @ [nl] @ ''Created at: Unknown''
         @ [nl] @ ''Model: ray-2'' @ [nl] @ ''Prompt: p''"
    using b d [of ?both] by simp
  show ?thesis
    using a b c p r e credential_test_world by blast
qed

section \<open>create_generation: the keyframes check\<close>

lemma keyframe_info_of_objects:
  assumes "\<And>v. map_of keyframes ''frame0'' = Some v \<Longrightarrow> is_dict v"
    and "\<And>v. map_of keyframes ''frame1'' = Some v \<Longrightarrow> is_dict v"
  shows "\<exists>info. keyframe_info keyframes = Inr info"
proof -
  have 0: "\<exists>i. frame0_info keyframes = Inr i"
  proof (cases "map_of keyframes ''frame0''")
    case None
    then show ?thesis by (simp add: frame0_info_def has_key_def)
  next
    case (Some v)
    then obtain d where "v = JObj d"
      using assms(1) by (cases v) auto
    then show ?thesis
      using Some by (simp add: frame0_info_def has_key_def dict_get_def)
  qed
  have 1: "\<exists>i. frame1_info keyframes = Inr i"
  proof (cases "map_of keyframes ''frame1''")
    case None
    then show ?thesis by (simp add: frame1_info_def has_key_def)
  next
    case (Some v)
    then obtain d where "v = JObj d"
      using assms(2) by (cases v) auto
    then show ?thesis
      using Some by (simp add: frame1_info_def has_key_def dict_get_def)
  qed
  show ?thesis
    using 0 1 by (auto simp add: keyframe_info_def)
qed

text \<open>
  Claim C7 as stated fails: an empty \<^verbatim>\<open>keyframes\<close> mapping contains neither \<^verbatim>\<open>frame0\<close>
  nor \<^verbatim>\<open>frame1\<close>, but it is falsy, so \<open>create_generation\<close> skips the check, sends the
  request without a \<^verbatim>\<open>keyframes\<close> field and renders the reply.
\<close>

theorem empty_keyframes_counterexample:
  "map_of [] ''frame0'' = (None :: json option) \<and> map_of [] ''frame1'' = (None :: json option)
   \<and> create_generation (test_world (\<lambda>n. pending_reply))
        [(''prompt'', JStr ''p''), (''keyframes'', JObj [])] None
     = (''Created text-to-video generation with ID: test-id'' @ [nl] @ ''State: pending'' @ [nl]
        @ ''Created at: Unknown'' @ [nl] @ ''Model: ray-2'' @ [nl] @ ''Prompt: p'',
        [Call \<lparr> http_method = ''POST'',
                 url = ''https://api.lumalabs.ai/dream-machine/v1/generations'',
                 headers = [(''Authorization'', ''Bearer test-key''),
                            (''Content-Type'', ''application/json''),
                            (''Accept'', ''application/json'')],
                 timeout_s = 30,
                 json_body = Some [(''prompt'', JStr ''p''), (''model'', JStr ''ray-2'')],
                 params = None \<rparr>])"
  by (simp add: build_request_def base_url_def create_generation_def create_generation_body_def try_except_def
      check_keyframes_def has_keyframes_def has_key_def dict_get_def duration_warning_def
      present_def make_luma_request_def credential_def test_world_def send_request_def
      pending_reply_def json_reply_def json_response_def read_response_def decode_body_def response_json_def
      create_data_def optional_params_def created_details_def)

text \<open>
  Claim C7, amended. Take a call of \<open>create_generation\<close> with a prompt whose
  \<^verbatim>\<open>keyframes\<close> argument is an object.
  \<^item> If the object is not empty and has neither the key \<^verbatim>\<open>frame0\<close> nor the key
    \<^verbatim>\<open>frame1\<close>, the text is \<^verbatim>\<open>Error creating generation: keyframes must contain frame0
    or frame1\<close> and no request is sent.
  \<^item> If it has \<^verbatim>\<open>frame0\<close> or \<^verbatim>\<open>frame1\<close>, the frames it has are objects, and there is a
    credential, exactly one request is sent: a POST to \<^verbatim>\<open>generations\<close> under the base
    URL with the bearer credential, whose JSON body holds, in this order, the prompt,
    the model (\<^verbatim>\<open>ray-2\<close> when none is given), those of \<^verbatim>\<open>resolution\<close>, \<^verbatim>\<open>duration\<close>,
    \<^verbatim>\<open>aspect_ratio\<close>, \<^verbatim>\<open>loop\<close> and \<^verbatim>\<open>callback_url\<close> that are given and not null, and
    the \<^verbatim>\<open>keyframes\<close> argument unchanged.
\<close>

theorem keyframes_checked:
  assumes "truthy (dict_get parameters ''prompt'' JNull)"
    and "map_of parameters ''keyframes'' = Some (JObj keyframes)"
  shows "(keyframes \<noteq> [] \<and> map_of keyframes ''frame0'' = None
            \<and> map_of keyframes ''frame1'' = None \<longrightarrow>
          fst (create_generation w parameters api_key)
            = ''Error creating generation: keyframes must contain frame0 or frame1''
          \<and> calls (snd (create_generation w parameters api_key)) = [])
       \<and> ((map_of keyframes ''frame0'' \<noteq> None \<or> map_of keyframes ''frame1'' \<noteq> None)
            \<and> (\<forall>v. map_of keyframes ''frame0'' = Some v \<longrightarrow> is_dict v)
            \<and> (\<forall>v. map_of keyframes ''frame1'' = Some v \<longrightarrow> is_dict v)
            \<and> credential w api_key = Some k \<longrightarrow>
          calls (snd (create_generation w parameters api_key))
            = [\<lparr> http_method = ''POST'',
                  url = ''https://api.lumalabs.ai/dream-machine/v1/generations'',
                  headers = [(''Authorization'', ''Bearer '' @ k),
                             (''Content-Type'', ''application/json''),
                             (''Accept'', ''application/json'')],
                  timeout_s = 30,
                  json_body = Some ([(''prompt'', dict_get parameters ''prompt'' JNull),
                                     (''model'', dict_get parameters ''model'' (JStr ''ray-2''))]
                                    @ map (\<lambda>k. (k, dict_get parameters k JNull))
                                        (filter (\<lambda>k. map_of parameters k \<noteq> None
                                                     \<and> map_of parameters k \<noteq> Some JNull)
                                           [''resolution'', ''duration'', ''aspect_ratio'',
                                            ''loop'', ''callback_url''])
                                    @ [(''keyframes'', JObj keyframes)]),
                  params = None \<rparr>])"
proof -
  have 1: "fst (create_generation w parameters api_key)
            = ''Error creating generation: keyframes must contain frame0 or frame1''
          \<and> calls (snd (create_generation w parameters api_key)) = []"
    if "keyframes \<noteq> []" "map_of keyframes ''frame0'' = None" "map_of keyframes ''frame1'' = None"
  proof -
    have "check_keyframes parameters
          = Inl (ValueError ''keyframes must contain frame0 or frame1'')"
      using that assms(2)
      by (simp add: check_keyframes_def has_keyframes_def has_key_def dict_get_def)
    then show ?thesis
      using assms(1)
      by (simp add: create_generation_def create_generation_body_def try_except_def
          calls_append calls_duration_warning)
  qed
  have 2: "calls (snd (create_generation w parameters api_key))
            = [\<lparr> http_method = ''POST'',
                  url = ''https://api.lumalabs.ai/dream-machine/v1/generations'',
                  headers = [(''Authorization'', ''Bearer '' @ k),
                             (''Content-Type'', ''application/json''),
                             (''Accept'', ''application/json'')],
                  timeout_s = 30,
                  json_body = Some ([(''prompt'', dict_get parameters ''prompt'' JNull),
                                     (''model'', dict_get parameters ''model'' (JStr ''ray-2''))]
                                    @ map (\<lambda>k. (k, dict_get parameters k JNull))
                                        (filter (\<lambda>k. map_of parameters k \<noteq> None
                                                     \<and> map_of parameters k \<noteq> Some JNull)
                                           [''resolution'', ''duration'', ''aspect_ratio'',
                                            ''loop'', ''callback_url''])
                                    @ [(''keyframes'', JObj keyframes)]),
                  params = None \<rparr>]"
    if f: "map_of keyframes ''frame0'' \<noteq> None \<or> map_of keyframes ''frame1'' \<noteq> None"
      and o0: "\<forall>v. map_of keyframes ''frame0'' = Some v \<longrightarrow> is_dict v"
      and o1: "\<forall>v. map_of keyframes ''frame1'' = Some v \<longrightarrow> is_dict v"
      and c: "credential w api_key = Some k"
  proof -
    obtain info where i: "keyframe_info keyframes = Inr info"
      using keyframe_info_of_objects [of keyframes] o0 o1 by blast
    have h: "has_key keyframes ''frame0'' \<or> has_key keyframes ''frame1''"
      using f by (simp add: has_key_def)
    obtain l where l: "check_keyframes parameters = Inr l"
      using check_keyframes_accepts(2) [OF assms(2) h i] by blast
    have "has_keyframes parameters"
      by (rule check_keyframes_accepts(1) [OF assms(2) h i])
    moreover have "filter (present parameters) optional_params
                   = filter (\<lambda>k. map_of parameters k \<noteq> None
                                 \<and> map_of parameters k \<noteq> Some JNull)
                       [''resolution'', ''duration'', ''aspect_ratio'', ''loop'', ''callback_url'']"
      unfolding optional_params_def
      by (rule filter_cong [OF refl])
         (auto simp add: present_def has_key_def dict_get_def split: option.splits)
    ultimately have "create_data parameters
          = [(''prompt'', dict_get parameters ''prompt'' JNull),
             (''model'', dict_get parameters ''model'' (JStr ''ray-2''))]
            @ map (\<lambda>k. (k, dict_get parameters k JNull))
                (filter (\<lambda>k. map_of parameters k \<noteq> None
                             \<and> map_of parameters k \<noteq> Some JNull)
                   [''resolution'', ''duration'', ''aspect_ratio'', ''loop'', ''callback_url''])
            @ [(''keyframes'', JObj keyframes)]"
      using assms(2) by (simp add: create_data_def dict_get_def)
    then show ?thesis
      using create_generation_calls [OF assms(1) l c]
      by (simp add: build_request_def base_url_def)
  qed
  show ?thesis
    using 1 2 by blast
qed

theorem keyframes_checked_witness:
  "truthy (dict_get (with_keyframes [(''frame2'', JObj image_frame)]) ''prompt'' JNull)
   \<and> map_of (with_keyframes [(''frame2'', JObj image_frame)]) ''keyframes''
       = Some (JObj [(''frame2'', JObj image_frame)])
   \<and> fst (create_generation (test_world (\<lambda>n. pending_reply))
             (with_keyframes [(''frame2'', JObj image_frame)]) None)
       = ''Error creating generation: keyframes must contain frame0 or frame1''
   \<and> calls (snd (create_generation (test_world (\<lambda>n. pending_reply))
                    (with_keyframes [(''frame2'', JObj image_frame)]) None)) = []
   \<and> calls (snd (create_generation (test_world (\<lambda>n. pending_reply))
                    (with_keyframes [(''frame0'', JObj image_frame)]) None))
       = [\<lparr> http_method = ''POST'',
             url = ''https://api.lumalabs.ai/dream-machine/v1/generations'',
             headers = [(''Authorization'', ''Bearer test-key''),
                        (''Content-Type'', ''application/json''),
                        (''Accept'', ''application/json'')],
             timeout_s = 30,
             json_body = Some [(''prompt'', JStr ''p''), (''model'', JStr ''ray-2''),
                               (''keyframes'', JObj [(''frame0'', JObj image_frame)])],
             params = None \<rparr>]"
proof -
  let ?w = "test_world (\<lambda>n. pending_reply)"
  have p: "truthy (dict_get (with_keyframes kf) ''prompt'' JNull)" for kf
    by (simp add: with_keyframes_def dict_get_def)
  have m: "map_of (with_keyframes kf) ''keyframes'' = Some (JObj kf)" for kf
    by (simp add: with_keyframes_def)
  have a: "fst (create_generation ?w (with_keyframes [(''frame2'', JObj image_frame)]) None)
             = ''Error creating generation: keyframes must contain frame0 or frame1''
           \<and> calls (snd (create_generation ?w
                           (with_keyframes [(''frame2'', JObj image_frame)]) None)) = []"
    using keyframes_checked [OF p m, of "[(''frame2'', JObj image_frame)]" ?w None]
    by simp
  have b: "calls (snd (create_generation ?w (with_keyframes [(''frame0'', JObj image_frame)]) None))
           = [\<lparr> http_method = ''POST'',
                 url = ''https://api.lumalabs.ai/dream-machine/v1/generations'',
                 headers = [(''Authorization'', ''Bearer test-key''),
                            (''Content-Type'', ''application/json''),
                            (''Accept'', ''application/json'')],
                 timeout_s = 30,
                 json_body = Some [(''prompt'', JStr ''p''), (''model'', JStr ''ray-2''),
                                   (''keyframes'', JObj [(''frame0'', JObj image_frame)])],
                 params = None \<rparr>]"
    using keyframes_checked [OF p m, of "[(''frame0'', JObj image_frame)]" ?w None "''test-key''"]
      credential_test_world [of "\<lambda>n. pending_reply"]
    by (simp add: with_keyframes_def dict_get_def)
  show ?thesis
    using a b p m by simp
qed

section \<open>get_credits: the two reply shapes\<close>

lemma get_credits_replied:
  assumes "credential w api_key = Some k" and "fst (receive (replies w 0)) = Inr result"
  shows "fst (get_credits w parameters api_key) = fst (render_credits result)"
  using assms
  by (simp add: get_credits_def get_credits_body_def make_luma_request_Some send_request_def
      fst_try_except_Inr)

text \<open>
  Claim C8. With a credential and a first reply that the gateway decodes to an object:
  if the object has the key \<^verbatim>\<open>credit_balance\<close>, the text of \<open>get_credits\<close> is the
  heading and the one line \<^verbatim>\<open>Available Credits: <value>\<close>, whatever other keys the object
  has; if it has no such key, the text is the heading and the three lines for
  \<^verbatim>\<open>credits_available\<close>, \<^verbatim>\<open>credits_used\<close> and \<^verbatim>\<open>credits_total\<close>, each value read with
  the default \<^verbatim>\<open>Unknown\<close>.
\<close>

theorem get_credits_shapes:
  assumes "credential w api_key = Some k"
    and "fst (receive (replies w 0)) = Inr (JObj result)"
  shows "(map_of result ''credit_balance'' = Some balance \<longrightarrow>
           fst (get_credits w parameters api_key) =
             ''Credit Information:'' @ [nl] @ ''Available Credits: '' @ py_str balance)
      \<and> (map_of result ''credit_balance'' = None \<longrightarrow>
           fst (get_credits w parameters api_key) =
             ''Credit Information:'' @ [nl]
             @ ''Available Credits: ''
             @ py_str (dict_get result ''credits_available'' (JStr ''Unknown'')) @ [nl]
             @ ''Used Credits: '' @ py_str (dict_get result ''credits_used'' (JStr ''Unknown'')) @ [nl]
             @ ''Total Credits: '' @ py_str (dict_get result ''credits_total'' (JStr ''Unknown'')))"
  using assms
  by (simp add: get_credits_replied has_key_def dict_get_def)

theorem get_credits_shapes_witness:
  "credential (test_world (\<lambda>n. json_reply 200
       (JObj [(''credit_balance'', JFloat ''150000.0''), (''credits_used'', JInt 2)]))) None
     = Some ''test-key''
   \<and> fst (get_credits (test_world (\<lambda>n. json_reply 200
       (JObj [(''credit_balance'', JFloat ''150000.0''), (''credits_used'', JInt 2)]))) [] None)
     = ''Credit Information:'' @ [nl] @ ''Available Credits: 150000.0''
   \<and> fst (get_credits (test_world (\<lambda>n. json_reply 200
       (JObj [(''credits_available'', JInt 1), (''credits_used'', JInt 2)]))) [] None)
     = ''Credit Information:'' @ [nl] @ ''Available Credits: 1'' @ [nl]
       @ ''Used Credits: 2'' @ [nl] @ ''Total Credits: Unknown''"
proof -
  let ?single = "[(''credit_balance'', JFloat ''150000.0''), (''credits_used'', JInt 2)]"
  let ?triple = "[(''credits_available'', JInt 1), (''credits_used'', JInt 2)]"
  have r1: "fst (receive (replies (test_world (\<lambda>n. json_reply 200 (JObj ?single))) 0))
            = Inr (JObj ?single)"
    by (simp add: test_world_def receive_json_reply)
  have r2: "fst (receive (replies (test_world (\<lambda>n. json_reply 200 (JObj ?triple))) 0))
            = Inr (JObj ?triple)"
    by (simp add: test_world_def receive_json_reply)
  show ?thesis
    using get_credits_shapes [OF credential_test_world r1, of "JFloat ''150000.0''" "[]"]
      get_credits_shapes [OF credential_test_world r2, of "JNull" "[]"]
    by (simp add: credential_test_world dict_get_def str_int_def str_nat.simps digit_def)
qed

section \<open>generate_image: the model sent upstream\<close>

lemma calls_image_model_warning: "calls (image_model_warning parameters) = []"
  by (simp add: image_model_warning_def)

lemma calls_render_image: "calls (snd (render_image parameters result)) = []"
  by (cases result) (simp_all add: Let_def)

lemma generate_image_body_sent:
  assumes "truthy (dict_get parameters ''prompt'' JNull)" and "credential w api_key = Some k"
  shows "generate_image_body w parameters api_key =
           (case send_request w 0 (build_request ''POST'' ''generations/image'' k
                                     (Some (image_data parameters)) None) of
              (Inl e, evs) \<Rightarrow> (Inl e, image_model_warning parameters @ evs)
            | (Inr result, evs) \<Rightarrow>
                (Inr (fst (render_image parameters result)),
                 image_model_warning parameters @ evs @ snd (render_image parameters result)))"
  using assms by (simp add: generate_image_body_def make_luma_request_Some)

text \<open>
  Claim C9. For a call of \<open>generate_image\<close> with a prompt and a credential, whatever the
  \<^verbatim>\<open>model\<close> argument is, the handler does not fail on it. Exactly one request is sent:
  a POST to \<^verbatim>\<open>generations/image\<close> under the base URL with the bearer credential, whose
  JSON body is the prompt and the model, in this order and with no other key.
  \<^item> When the model argument is \<^verbatim>\<open>photon-1\<close> or \<^verbatim>\<open>photon-flash-1\<close> (or absent, which
    reads as \<^verbatim>\<open>photon-1\<close>), the model in the body is the argument, and the request is
    the first event of the call: nothing is logged before it.
  \<^item> For every other value the model in the body is \<^verbatim>\<open>photon-1\<close>, and the first event of
    the call, before the request, is a log record of level warning with the text
    \<^verbatim>\<open>Unsupported image model: <value>. Using 'photon-1' instead. Only 'photon-1' and
    'photon-flash-1' are supported for image generation.\<close>
  \<^item> When the gateway returns a value, the text is the rendering of that value, not an
    error text.
\<close>

theorem generate_image_model:
  assumes "truthy (dict_get parameters ''prompt'' JNull)" and "credential w api_key = Some k"
  shows "(dict_get parameters ''model'' (JStr ''photon-1'') = JStr ''photon-1''
            \<or> dict_get parameters ''model'' (JStr ''photon-1'') = JStr ''photon-flash-1'' \<longrightarrow>
          calls (snd (generate_image w parameters api_key))
            = [\<lparr> http_method = ''POST'',
                  url = ''https://api.lumalabs.ai/dream-machine/v1/generations/image'',
                  headers = [(''Authorization'', ''Bearer '' @ k),
                             (''Content-Type'', ''application/json''),
                             (''Accept'', ''application/json'')],
                  timeout_s = 30,
                  json_body = Some [(''prompt'', dict_get parameters ''prompt'' JNull),
                                    (''model'', dict_get parameters ''model'' (JStr ''photon-1''))],
                  params = None \<rparr>]
          \<and> take 1 (snd (generate_image w parameters api_key))
            = [Call \<lparr> http_method = ''POST'',
                  url = ''https://api.lumalabs.ai/dream-machine/v1/generations/image'',
                  headers = [(''Authorization'', ''Bearer '' @ k),
                             (''Content-Type'', ''application/json''),
                             (''Accept'', ''application/json'')],
                  timeout_s = 30,
                  json_body = Some [(''prompt'', dict_get parameters ''prompt'' JNull),
                                    (''model'', dict_get parameters ''model'' (JStr ''photon-1''))],
                  params = None \<rparr>])
       \<and> (dict_get parameters ''model'' (JStr ''photon-1'') \<noteq> JStr ''photon-1''
            \<and> dict_get parameters ''model'' (JStr ''photon-1'') \<noteq> JStr ''photon-flash-1'' \<longrightarrow>
          calls (snd (generate_image w parameters api_key))
            = [\<lparr> http_method = ''POST'',
                  url = ''https://api.lumalabs.ai/dream-machine/v1/generations/image'',
                  headers = [(''Authorization'', ''Bearer '' @ k),
                             (''Content-Type'', ''application/json''),
                             (''Accept'', ''application/json'')],
                  timeout_s = 30,
                  json_body = Some [(''prompt'', dict_get parameters ''prompt'' JNull),
                                    (''model'', JStr ''photon-1'')],
                  params = None \<rparr>]
          \<and> take 2 (snd (generate_image w parameters api_key))
            = [Log Warning
                 (''Unsupported image model: ''
                  @ py_str (dict_get parameters ''model'' (JStr ''photon-1''))
                  @ ''. Using '' @ [sq] @ ''photon-1'' @ [sq] @ '' instead. Only '' @ [sq]
                  @ ''photon-1'' @ [sq] @ '' and '' @ [sq] @ ''photon-flash-1'' @ [sq]
                  @ '' are supported for image generation.''),
               Call \<lparr> http_method = ''POST'',
                  url = ''https://api.lumalabs.ai/dream-machine/v1/generations/image'',
                  headers = [(''Authorization'', ''Bearer '' @ k),
                             (''Content-Type'', ''application/json''),
                             (''Accept'', ''application/json'')],
                  timeout_s = 30,
                  json_body = Some [(''prompt'', dict_get parameters ''prompt'' JNull),
                                    (''model'', JStr ''photon-1'')],
                  params = None \<rparr>])
       \<and> (fst (receive (replies w 0)) = Inr result \<longrightarrow>
            fst (generate_image w parameters api_key) = fst (render_image parameters result))"
proof -
  let ?req = "build_request ''POST'' ''generations/image'' k (Some (image_data parameters)) None"
  let ?model = "dict_get parameters ''model'' (JStr ''photon-1'')"
  obtain res evs where s: "send_request w 0 ?req = (res, evs)"
    by (cases "send_request w 0 ?req") blast
  have c: "calls evs = [?req]"
    using calls_send_request [of w 0 ?req] s by simp
  have h: "take 1 evs = [Call ?req]"
    using s by (auto simp add: send_request_def)
  have r: "res = fst (receive (replies w 0))"
    using fst_send_request [of w 0 ?req] s by simp
  have b: "generate_image_body w parameters api_key =
             (case res of
                Inl e \<Rightarrow> (Inl e, image_model_warning parameters @ evs)
              | Inr result \<Rightarrow>
                  (Inr (fst (render_image parameters result)),
                   image_model_warning parameters @ evs @ snd (render_image parameters result)))"
    using generate_image_body_sent [OF assms] s by (simp split: sum.split)
  have e: "\<exists>rest. snd (generate_image w parameters api_key)
                    = image_model_warning parameters @ evs @ rest"
    using b by (auto simp add: generate_image_def try_except_def split: sum.split)
  have 1: "calls (snd (generate_image w parameters api_key)) = [?req]"
    using b c
    by (simp add: generate_image_def calls_try_except calls_append calls_image_model_warning
        calls_render_image split: sum.split)
  have 4: "fst (receive (replies w 0)) = Inr result \<longrightarrow>
            fst (generate_image w parameters api_key) = fst (render_image parameters result)"
    using b r by (simp add: generate_image_def try_except_def split: sum.split)
  have q: "?req = \<lparr> http_method = ''POST'',
                  url = ''https://api.lumalabs.ai/dream-machine/v1/generations/image'',
                  headers = [(''Authorization'', ''Bearer '' @ k),
                             (''Content-Type'', ''application/json''),
                             (''Accept'', ''application/json'')],
                  timeout_s = 30,
                  json_body = Some (image_data parameters),
                  params = None \<rparr>"
    by (simp add: build_request_def base_url_def)
  have 2: "calls (snd (generate_image w parameters api_key))
            = [\<lparr> http_method = ''POST'',
                  url = ''https://api.lumalabs.ai/dream-machine/v1/generations/image'',
                  headers = [(''Authorization'', ''Bearer '' @ k),
                             (''Content-Type'', ''application/json''),
                             (''Accept'', ''application/json'')],
                  timeout_s = 30,
                  json_body = Some [(''prompt'', dict_get parameters ''prompt'' JNull),
                                    (''model'', ?model)],
                  params = None \<rparr>]
          \<and> take 1 (snd (generate_image w parameters api_key))
            = [Call \<lparr> http_method = ''POST'',
                  url = ''https://api.lumalabs.ai/dream-machine/v1/generations/image'',
                  headers = [(''Authorization'', ''Bearer '' @ k),
                             (''Content-Type'', ''application/json''),
                             (''Accept'', ''application/json'')],
                  timeout_s = 30,
                  json_body = Some [(''prompt'', dict_get parameters ''prompt'' JNull),
                                    (''model'', ?model)],
                  params = None \<rparr>]"
    if m: "?model = JStr ''photon-1'' \<or> ?model = JStr ''photon-flash-1''"
  proof -
    have d: "image_data parameters
             = [(''prompt'', dict_get parameters ''prompt'' JNull), (''model'', ?model)]"
      using m by (auto simp add: image_data_def image_model_def image_models_def)
    have n: "image_model_warning parameters = []"
      using m by (auto simp add: image_model_warning_def image_models_def)
    obtain rest where "snd (generate_image w parameters api_key) = evs @ rest"
      using e n by auto
    then have "take 1 (snd (generate_image w parameters api_key)) = [Call ?req]"
      using h by (cases evs) simp_all
    then show ?thesis
      using 1 q d by simp
  qed
  have 3: "calls (snd (generate_image w parameters api_key))
            = [\<lparr> http_method = ''POST'',
                  url = ''https://api.lumalabs.ai/dream-machine/v1/generations/image'',
                  headers = [(''Authorization'', ''Bearer '' @ k),
                             (''Content-Type'', ''application/json''),
                             (''Accept'', ''application/json'')],
                  timeout_s = 30,
                  json_body = Some [(''prompt'', dict_get parameters ''prompt'' JNull),
                                    (''model'', JStr ''photon-1'')],
                  params = None \<rparr>]
          \<and> take 2 (snd (generate_image w parameters api_key))
            = [Log Warning
                 (''Unsupported image model: '' @ py_str ?model
                  @ ''. Using '' @ [sq] @ ''photon-1'' @ [sq] @ '' instead. Only '' @ [sq]
                  @ ''photon-1'' @ [sq] @ '' and '' @ [sq] @ ''photon-flash-1'' @ [sq]
                  @ '' are supported for image generation.''),
               Call \<lparr> http_method = ''POST'',
                  url = ''https://api.lumalabs.ai/dream-machine/v1/generations/image'',
                  headers = [(''Authorization'', ''Bearer '' @ k),
                             (''Content-Type'', ''application/json''),
                             (''Accept'', ''application/json'')],
                  timeout_s = 30,
                  json_body = Some [(''prompt'', dict_get parameters ''prompt'' JNull),
                                    (''model'', JStr ''photon-1'')],
                  params = None \<rparr>]"
    if m: "?model \<noteq> JStr ''photon-1'' \<and> ?model \<noteq> JStr ''photon-flash-1''"
  proof -
    have d: "image_data parameters
             = [(''prompt'', dict_get parameters ''prompt'' JNull), (''model'', JStr ''photon-1'')]"
      using m by (auto simp add: image_data_def image_model_def image_models_def)
    have n: "image_model_warning parameters
             = [Log Warning
                 (''Unsupported image model: '' @ py_str ?model
                  @ ''. Using '' @ [sq] @ ''photon-1'' @ [sq] @ '' instead. Only '' @ [sq]
                  @ ''photon-1'' @ [sq] @ '' and '' @ [sq] @ ''photon-flash-1'' @ [sq]
                  @ '' are supported for image generation.'')]"
      using m by (auto simp add: image_model_warning_def image_models_def)
    obtain rest where "snd (generate_image w parameters api_key)
                       = image_model_warning parameters @ evs @ rest"
      using e by auto
    then have "take 2 (snd (generate_image w parameters api_key))
               = image_model_warning parameters @ [Call ?req]"
      using h n by (cases evs) simp_all
    then show ?thesis
      using 1 q d n by simp
  qed
  show ?thesis
    using 2 3 4 by blast
qed

theorem generate_image_model_witness:
  "truthy (dict_get [(''prompt'', JStr ''cat''), (''model'', JStr ''ray-2'')] ''prompt'' JNull)
   \<and> credential (test_world (\<lambda>n. json_reply 200 (JList []))) None = Some ''test-key''
   \<and> snd (generate_image (test_world (\<lambda>n. json_reply 200 (JList [])))
             [(''prompt'', JStr ''cat''), (''model'', JStr ''ray-2'')] None)
      = [Log Warning
           (''Unsupported image model: ray-2. Using '' @ [sq] @ ''photon-1'' @ [sq]
            @ '' instead. Only '' @ [sq] @ ''photon-1'' @ [sq] @ '' and '' @ [sq]
            @ ''photon-flash-1'' @ [sq] @ '' are supported for image generation.''),
         Call \<lparr> http_method = ''POST'',
                url = ''https://api.lumalabs.ai/dream-machine/v1/generations/image'',
                headers = [(''Authorization'', ''Bearer test-key''),
                           (''Content-Type'', ''application/json''),
                           (''Accept'', ''application/json'')],
                timeout_s = 30,
                json_body = Some [(''prompt'', JStr ''cat''), (''model'', JStr ''photon-1'')],
                params = None \<rparr>,
         Log Warning ''Unexpected response format from generate_image: []'']
   \<and> take 1 (snd (generate_image (test_world (\<lambda>n. json_reply 200 (JList [])))
                     [(''prompt'', JStr ''cat''), (''model'', JStr ''photon-flash-1'')] None))
      = [Call \<lparr> http_method = ''POST'',
                url = ''https://api.lumalabs.ai/dream-machine/v1/generations/image'',
                headers = [(''Authorization'', ''Bearer test-key''),
                           (''Content-Type'', ''application/json''),
                           (''Accept'', ''application/json'')],
                timeout_s = 30,
                json_body = Some [(''prompt'', JStr ''cat''), (''model'', JStr ''photon-flash-1'')],
                params = None \<rparr>]
   \<and> fst (generate_image (test_world (\<lambda>n. json_reply 200 (JList [])))
              [(''prompt'', JStr ''cat''), (''model'', JStr ''ray-2'')] None)
      = ''Image generation completed for prompt: cat. Response: []''"
proof -
  let ?ps = "[(''prompt'', JStr ''cat''), (''model'', JStr ''ray-2'')]"
  let ?qs = "[(''prompt'', JStr ''cat''), (''model'', JStr ''photon-flash-1'')]"
  let ?w = "test_world (\<lambda>n. json_reply 200 (JList []))"
  have p: "truthy (dict_get ?ps ''prompt'' JNull)" and q: "truthy (dict_get ?qs ''prompt'' JNull)"
    by (simp_all add: dict_get_def)
  have r: "fst (receive (replies ?w 0)) = Inr (JList [])"
    by (simp add: test_world_def receive_json_reply)
  have a: "take 2 (snd (generate_image ?w ?ps None))
           = [Log Warning
                (''Unsupported image model: ray-2. Using '' @ [sq] @ ''photon-1'' @ [sq]
                 @ '' instead. Only '' @ [sq] @ ''photon-1'' @ [sq] @ '' and '' @ [sq]
                 @ ''photon-flash-1'' @ [sq] @ '' are supported for image generation.''),
              Call \<lparr> http_method = ''POST'',
                url = ''https://api.lumalabs.ai/dream-machine/v1/generations/image'',
                headers = [(''Authorization'', ''Bearer test-key''),
                           (''Content-Type'', ''application/json''),
                           (''Accept'', ''application/json'')],
                timeout_s = 30,
                json_body = Some [(''prompt'', JStr ''cat''), (''model'', JStr ''photon-1'')],
                params = None \<rparr>]
         \<and> fst (generate_image ?w ?ps None)
           = ''Image generation completed for prompt: cat. Response: []''"
    using generate_image_model [OF p credential_test_world,
        of "\<lambda>n. json_reply 200 (JList [])" "JList []"] r
    by (simp add: dict_get_def)
  have t: "drop 2 (snd (generate_image ?w ?ps None))
           = [Log Warning ''Unexpected response format from generate_image: []'']"
    by (simp add: generate_image_def generate_image_body_def image_model_warning_def
        image_models_def dict_get_def gateway_defs)
  have b: "take 1 (snd (generate_image ?w ?qs None))
           = [Call \<lparr> http_method = ''POST'',
                url = ''https://api.lumalabs.ai/dream-machine/v1/generations/image'',
                headers = [(''Authorization'', ''Bearer test-key''),
                           (''Content-Type'', ''application/json''),
                           (''Accept'', ''application/json'')],
                timeout_s = 30,
                json_body = Some [(''prompt'', JStr ''cat''), (''model'', JStr ''photon-flash-1'')],
                params = None \<rparr>]"
    using generate_image_model [OF q credential_test_world,
        of "\<lambda>n. json_reply 200 (JList [])" "JList []"]
    by (simp add: dict_get_def)
  have "snd (generate_image ?w ?ps None)
        = take 2 (snd (generate_image ?w ?ps None)) @ drop 2 (snd (generate_image ?w ?ps None))"
    by simp
  then show ?thesis
    using a t b p credential_test_world by simp
qed

section \<open>A required argument that is present but falsy\<close>

text \<open>
  Claim C10. Let \<open>v\<close> be a falsy value (the empty string, but also \<^verbatim>\<open>None\<close>, \<^verbatim>\<open>False\<close>,
  zero, an empty list or object) and let a handler's required argument be present in the
  argument mapping with value \<open>v\<close>. Then the handler sends no request and returns the
  text it returns for a missing argument: its error prefix, which echoes \<open>v\<close> where the
  handler echoes the argument, followed by the \<^verbatim>\<open>parameter is required\<close> message of
  that argument. For the second required argument of \<open>upscale_generation\<close> and
  \<open>add_audio\<close> the first one, \<^verbatim>\<open>generation_id\<close>, is truthy.
\<close>

theorem falsy_argument_is_missing:
  assumes "\<not> truthy v"
  shows "(map_of parameters ''prompt'' = Some v \<longrightarrow>
            fst (create_generation w parameters api_key)
              = ''Error creating generation: prompt parameter is required''
            \<and> calls (snd (create_generation w parameters api_key)) = [])
       \<and> (map_of parameters ''generation_id'' = Some v \<longrightarrow>
            fst (get_generation w parameters api_key)
              = ''Error getting generation '' @ py_str v @ '': generation_id parameter is required''
            \<and> calls (snd (get_generation w parameters api_key)) = [])
       \<and> (map_of parameters ''generation_id'' = Some v \<longrightarrow>
            fst (delete_generation w parameters api_key)
              = ''Error deleting generation '' @ py_str v @ '': generation_id parameter is required''
            \<and> calls (snd (delete_generation w parameters api_key)) = [])
       \<and> (map_of parameters ''generation_id'' = Some v \<longrightarrow>
            fst (upscale_generation w parameters api_key)
              = ''Error upscaling generation '' @ py_str v @ '': generation_id parameter is required''
            \<and> calls (snd (upscale_generation w parameters api_key)) = [])
       \<and> (truthy (dict_get parameters ''generation_id'' JNull)
            \<and> map_of parameters ''resolution'' = Some v \<longrightarrow>
            fst (upscale_generation w parameters api_key)
              = ''Error upscaling generation ''
                @ py_str (dict_get parameters ''generation_id'' JNull)
                @ '': resolution parameter is required for upscaling''
            \<and> calls (snd (upscale_generation w parameters api_key)) = [])
       \<and> (map_of parameters ''generation_id'' = Some v \<longrightarrow>
            fst (add_audio w parameters api_key)
              = ''Error adding audio to generation '' @ py_str v
                @ '': generation_id parameter is required''
            \<and> calls (snd (add_audio w parameters api_key)) = [])
       \<and> (truthy (dict_get parameters ''generation_id'' JNull)
            \<and> map_of parameters ''prompt'' = Some v \<longrightarrow>
            fst (add_audio w parameters api_key)
              = ''Error adding audio to generation ''
                @ py_str (dict_get parameters ''generation_id'' JNull)
                @ '': prompt parameter is required for audio generation''
            \<and> calls (snd (add_audio w parameters api_key)) = [])
       \<and> (map_of parameters ''prompt'' = Some v \<longrightarrow>
            fst (generate_image w parameters api_key)
              = ''Error generating image for prompt '' @ [sq] @ py_str v @ [sq]
                @ '': prompt parameter is required''
            \<and> calls (snd (generate_image w parameters api_key)) = [])"
proof -
  have p: "map_of parameters ''prompt'' = Some v \<Longrightarrow> dict_get parameters ''prompt'' JNull = v"
    by (simp add: dict_get_def)
  have g: "map_of parameters ''generation_id'' = Some v \<Longrightarrow>
           dict_get parameters ''generation_id'' JNull = v"
    by (simp add: dict_get_def)
  have r: "map_of parameters ''resolution'' = Some v \<Longrightarrow>
           dict_get parameters ''resolution'' JNull = v"
    by (simp add: dict_get_def)
  have 1: "map_of parameters ''prompt'' = Some v \<longrightarrow>
            fst (create_generation w parameters api_key)
              = ''Error creating generation: prompt parameter is required''
            \<and> calls (snd (create_generation w parameters api_key)) = []"
    using p assms by (simp add: create_generation_no_prompt)
  have 2: "map_of parameters ''generation_id'' = Some v \<longrightarrow>
            fst (get_generation w parameters api_key)
              = ''Error getting generation '' @ py_str v @ '': generation_id parameter is required''
            \<and> calls (snd (get_generation w parameters api_key)) = []"
    using g assms by (simp add: get_generation_no_id)
  have 3: "map_of parameters ''generation_id'' = Some v \<longrightarrow>
            fst (delete_generation w parameters api_key)
              = ''Error deleting generation '' @ py_str v @ '': generation_id parameter is required''
            \<and> calls (snd (delete_generation w parameters api_key)) = []"
    using g assms by (simp add: delete_generation_no_id)
  have 4: "map_of parameters ''generation_id'' = Some v \<longrightarrow>
            fst (upscale_generation w parameters api_key)
              = ''Error upscaling generation '' @ py_str v @ '': generation_id parameter is required''
            \<and> calls (snd (upscale_generation w parameters api_key)) = []"
    using g assms by (simp add: upscale_generation_no_id)
  have 5: "truthy (dict_get parameters ''generation_id'' JNull)
            \<and> map_of parameters ''resolution'' = Some v \<longrightarrow>
            fst (upscale_generation w parameters api_key)
              = ''Error upscaling generation ''
                @ py_str (dict_get parameters ''generation_id'' JNull)
                @ '': resolution parameter is required for upscaling''
            \<and> calls (snd (upscale_generation w parameters api_key)) = []"
    using r assms by (simp add: upscale_generation_no_resolution)
  have 6: "map_of parameters ''generation_id'' = Some v \<longrightarrow>
            fst (add_audio w parameters api_key)
              = ''Error adding audio to generation '' @ py_str v
                @ '': generation_id parameter is required''
            \<and> calls (snd (add_audio w parameters api_key)) = []"
    using g assms by (simp add: add_audio_no_id)
  have 7: "truthy (dict_get parameters ''generation_id'' JNull)
            \<and> map_of parameters ''prompt'' = Some v \<longrightarrow>
            fst (add_audio w parameters api_key)
              = ''Error adding audio to generation ''
                @ py_str (dict_get parameters ''generation_id'' JNull)
                @ '': prompt parameter is required for audio generation''
            \<and> calls (snd (add_audio w parameters api_key)) = []"
    using p assms by (simp add: add_audio_no_prompt)
  have 8: "map_of parameters ''prompt'' = Some v \<longrightarrow>
            fst (generate_image w parameters api_key)
              = ''Error generating image for prompt '' @ [sq] @ py_str v @ [sq]
                @ '': prompt parameter is required''
            \<and> calls (snd (generate_image w parameters api_key)) = []"
    using p assms by (simp add: generate_image_no_prompt)
  show ?thesis
    using 1 2 3 4 5 6 7 8 by blast
qed

theorem falsy_argument_is_missing_witness:
  "\<not> truthy (JStr [])
   \<and> map_of [(''prompt'', JStr []), (''generation_id'', JStr [])] ''prompt'' = Some (JStr [])
   \<and> map_of [(''prompt'', JStr []), (''generation_id'', JStr [])] ''generation_id''
       = Some (JStr [])
   \<and> map_of [(''generation_id'', JStr ''g''), (''resolution'', JStr []), (''prompt'', JStr [])]
        ''resolution'' = Some (JStr [])
   \<and> create_generation (test_world (\<lambda>n. json_reply 200 (JObj [])))
        [(''prompt'', JStr []), (''generation_id'', JStr [])] None
      = (''Error creating generation: prompt parameter is required'',
         [Log Error ''Error in create_generation: prompt parameter is required''])
   \<and> fst (get_generation (test_world (\<lambda>n. json_reply 200 (JObj [])))
        [(''prompt'', JStr []), (''generation_id'', JStr [])] None)
      = ''Error getting generation : generation_id parameter is required''
   \<and> fst (upscale_generation (test_world (\<lambda>n. json_reply 200 (JObj [])))
        [(''generation_id'', JStr ''g''), (''resolution'', JStr []), (''prompt'', JStr [])] None)
      = ''Error upscaling generation g: resolution parameter is required for upscaling''
   \<and> fst (add_audio (test_world (\<lambda>n. json_reply 200 (JObj [])))
        [(''generation_id'', JStr ''g''), (''resolution'', JStr []), (''prompt'', JStr [])] None)
      = ''Error adding audio to generation g: prompt parameter is required for audio generation''"
proof -
  let ?w = "test_world (\<lambda>n. json_reply 200 (JObj []))"
  let ?a = "[(''prompt'', JStr []), (''generation_id'', JStr [])]"
  let ?b = "[(''generation_id'', JStr ''g''), (''resolution'', JStr []), (''prompt'', JStr [])]"
  have f: "\<not> truthy (JStr [])" by simp
  show ?thesis
    using falsy_argument_is_missing [OF f, of ?a ?w None]
      falsy_argument_is_missing [OF f, of ?b ?w None]
    by (simp add: dict_get_def create_generation_no_prompt)
qed

end
